theory Spec2Isabelle
  imports Main
begin

section \<open>Data model (LittleLemonAPI/models.py)\<close>

text \<open>
  Primary keys and foreign keys are integers, as the values the serializers receive
  for them are. A \<open>DecimalField\<close> with two
  decimal places is an integer number of hundredths, so that the product of a price and
  an integer quantity, and a sum of such products, are exact as they are for Python's
  \<open>Decimal\<close>. Quantities are integers.
\<close>

type_synonym pk = int
type_synonym decimal = int

record User =
  user_id :: pk
  username :: string

record Group =
  group_id :: pk
  group_name :: string

record MenuItem =
  mi_id :: pk
  mi_title :: string
  mi_price :: decimal
  mi_featured :: bool
  mi_category :: pk

record Cart =
  cart_id :: pk
  cart_user :: pk

record CartItem =
  ci_id :: pk
  ci_user :: pk
  ci_cart :: pk
  ci_menu_item :: pk
  ci_quantity :: int

record Order =
  order_id :: pk
  order_user :: pk
  order_delivery_crew :: "pk option"
  order_status :: bool
  order_date :: nat

record OrderItem =
  oi_id :: pk
  oi_order :: pk
  oi_menu_item :: pk
  oi_quantity :: int
  oi_unit_price :: decimal
  oi_price :: decimal

text \<open>
  The database: one list of rows per table, in insertion order, and the membership
  table of the many-to-many relation between users and groups as (user, group) pairs.
\<close>

record db =
  users :: "User list"
  groups :: "Group list"
  user_groups :: "(pk \<times> pk) list"
  menu_items :: "MenuItem list"
  carts :: "Cart list"
  cart_items :: "CartItem list"
  orders :: "Order list"
  order_items :: "OrderItem list"

text \<open>
  What the source can raise. The detail of a \<open>ValidationError\<close> is the message a
  \<open>validate_\<close> method raises it with, or the dictionary of (field, message) pairs
  into which a serializer collects the errors of its fields.
\<close>

datatype detail = Message string | Fields "(string \<times> string) list"

datatype exn =
  ValidationError detail
  | Http404 string
  | IntegrityError
  | DoesNotExist
  | AttributeError
  | KeyError

text \<open>
  The outcome of a view: a response with its status code and the database after it, or
  an exception that no handler of the view catches.
\<close>

datatype outcome = Response nat db | Raised exn

section \<open>Object-relational primitives\<close>

text \<open>A new row takes a primary key above every key of its table.\<close>

definition fresh_pk :: "pk list \<Rightarrow> pk" where
  "fresh_pk ks = fold max ks 0 + 1"

text \<open>\<open>user.cart\<close>, the reverse side of the one-to-one field; \<open>hasattr(user, "cart")\<close>
  is whether it is there.\<close>

definition user_cart :: "db \<Rightarrow> pk \<Rightarrow> Cart option" where
  "user_cart s u = find (\<lambda>c. cart_user c = u) (carts s)"

text \<open>\<open>user.cart_items.all()\<close> and \<open>cart.cart_items.all()\<close>, the two related
  managers of \<open>CartItem\<close>.\<close>

definition user_cart_items :: "db \<Rightarrow> pk \<Rightarrow> CartItem list" where
  "user_cart_items s u = filter (\<lambda>i. ci_user i = u) (cart_items s)"

definition cart_cart_items :: "db \<Rightarrow> pk \<Rightarrow> CartItem list" where
  "cart_cart_items s c = filter (\<lambda>i. ci_cart i = c) (cart_items s)"

definition order_order_items :: "db \<Rightarrow> pk \<Rightarrow> OrderItem list" where
  "order_order_items s ord = filter (\<lambda>i. oi_order i = ord) (order_items s)"

definition get_menu_item :: "db \<Rightarrow> pk \<Rightarrow> MenuItem option" where
  "get_menu_item s m = find (\<lambda>x. mi_id x = m) (menu_items s)"

text \<open>\<open>cart.delete()\<close>: the row goes, and with it every cart item whose \<open>cart\<close>
  foreign key points to it (\<open>on_delete=CASCADE\<close>).\<close>

definition Cart_delete :: "db \<Rightarrow> Cart \<Rightarrow> db" where
  "Cart_delete s c =
     s\<lparr>carts := filter (\<lambda>x. cart_id x \<noteq> cart_id c) (carts s),
       cart_items := filter (\<lambda>i. ci_cart i \<noteq> cart_id c) (cart_items s)\<rparr>"

text \<open>\<open>Cart.objects.create(user=user)\<close>; the one-to-one field is unique.\<close>

definition Cart_create :: "db \<Rightarrow> pk \<Rightarrow> exn + (Cart \<times> db)" where
  "Cart_create s u =
     (if \<exists>c \<in> set (carts s). cart_user c = u then Inl IntegrityError
      else let c = \<lparr>cart_id = fresh_pk (map cart_id (carts s)), cart_user = u\<rparr>
           in Inr (c, s\<lparr>carts := carts s @ [c]\<rparr>))"

text \<open>\<open>CartItem.objects.create(cart=..., user=..., menu_item_id=..., quantity=...)\<close>,
  with \<open>unique_together = ["user", "menu_item"]\<close>.\<close>

definition CartItem_create :: "db \<Rightarrow> pk \<Rightarrow> pk \<Rightarrow> pk \<Rightarrow> int \<Rightarrow> exn + (CartItem \<times> db)" where
  "CartItem_create s c u m q =
     (if \<exists>i \<in> set (cart_items s). ci_user i = u \<and> ci_menu_item i = m then Inl IntegrityError
      else let i = \<lparr>ci_id = fresh_pk (map ci_id (cart_items s)), ci_user = u, ci_cart = c,
                      ci_menu_item = m, ci_quantity = q\<rparr>
           in Inr (i, s\<lparr>cart_items := cart_items s @ [i]\<rparr>))"

text \<open>Saving a changed cart item: an UPDATE of the row with its primary key, under the
  same uniqueness constraint.\<close>

definition CartItem_save :: "db \<Rightarrow> CartItem \<Rightarrow> exn + db" where
  "CartItem_save s i =
     (if \<exists>j \<in> set (cart_items s).
           ci_id j \<noteq> ci_id i \<and> ci_user j = ci_user i \<and> ci_menu_item j = ci_menu_item i
      then Inl IntegrityError
      else Inr (s\<lparr>cart_items := map (\<lambda>j. if ci_id j = ci_id i then i else j) (cart_items s)\<rparr>))"

text \<open>\<open>Order.objects.create(user=..., ...)\<close>: \<open>delivery_crew\<close> is nullable and
  \<open>status\<close> has the default 0 where the keyword is not given; \<open>date\<close> is the day of
  creation (\<open>auto_now_add\<close>).\<close>

definition Order_create :: "db \<Rightarrow> pk \<Rightarrow> pk option option \<Rightarrow> bool option \<Rightarrow> nat \<Rightarrow> Order \<times> db" where
  "Order_create s u crew st today =
     (let ord = \<lparr>order_id = fresh_pk (map order_id (orders s)), order_user = u,
                  order_delivery_crew = (case crew of None \<Rightarrow> None | Some c \<Rightarrow> c),
                  order_status = (case st of None \<Rightarrow> False | Some b \<Rightarrow> b),
                  order_date = today\<rparr>
      in (ord, s\<lparr>orders := orders s @ [ord]\<rparr>))"

definition Order_save :: "db \<Rightarrow> Order \<Rightarrow> db" where
  "Order_save s ord = s\<lparr>orders := map (\<lambda>x. if order_id x = order_id ord then ord else x) (orders s)\<rparr>"

text \<open>\<open>OrderItem.objects.create(...)\<close>, with \<open>unique_together = ["order", "menu_item"]\<close>.
  The constraints modelled are the uniqueness constraints \<open>models.py\<close> declares; a
  foreign key whose row is missing shows when the row is read. The ranges a database
  puts on a stored decimal or small integer are not modelled: where it would refuse a row
  the operation fails, and what is proved of the operations that succeed does not depend
  on it.\<close>

definition OrderItem_create :: "db \<Rightarrow> pk \<Rightarrow> pk \<Rightarrow> int \<Rightarrow> decimal \<Rightarrow> decimal \<Rightarrow> exn + db" where
  "OrderItem_create s ord m q up p =
     (if \<exists>i \<in> set (order_items s). oi_order i = ord \<and> oi_menu_item i = m then Inl IntegrityError
      else Inr (s\<lparr>order_items := order_items s @
                  [\<lparr>oi_id = fresh_pk (map oi_id (order_items s)), oi_order = ord, oi_menu_item = m,
                    oi_quantity = q, oi_unit_price = up, oi_price = p\<rparr>]\<rparr>))"

text \<open>\<open>user.groups.filter(name=n).exists()\<close>.\<close>

definition in_group :: "db \<Rightarrow> pk \<Rightarrow> string \<Rightarrow> bool" where
  "in_group s u n = (\<exists>g \<in> set (groups s). group_name g = n \<and> (u, group_id g) \<in> set (user_groups s))"

section \<open>Serializers (LittleLemonAPI/serializers.py, LittleLemonAPI/fields.py)\<close>

subsection \<open>SerializerMethodDecimalField\<close>


subsection \<open>CartSerializer\<close>

text \<open>The loop of \<open>get_total\<close>; \<open>item.menu_item\<close> raises when the row is not there.\<close>

fun cart_total_loop :: "db \<Rightarrow> decimal \<Rightarrow> CartItem list \<Rightarrow> exn + decimal" where
  "cart_total_loop s tot [] = Inr tot"
| "cart_total_loop s tot (item # items) =
     (case get_menu_item s (ci_menu_item item) of
        None \<Rightarrow> Inl DoesNotExist
      | Some m \<Rightarrow> cart_total_loop s (tot + mi_price m * ci_quantity item) items)"


subsection \<open>CartItemSerializer\<close>

text \<open>The body of a request, field by field (\<open>None\<close>: the field is not in it), and the
  validated data.\<close>

record cart_item_data =
  cd_menu_item_id :: "int option"
  cd_quantity :: "int option"

record cart_item_attrs =
  ca_user :: "pk option"
  ca_menu_item_id :: "pk option"
  ca_quantity :: "int option"

definition validate_menu_item_id :: "db \<Rightarrow> int \<Rightarrow> exn + int" where
  "validate_menu_item_id s v =
     (if \<not> (\<exists>m \<in> set (menu_items s). mi_id m = v)
      then Inl (ValidationError (Message ''Invalid menu item ID''))
      else Inr v)"

text \<open>\<open>extra_kwargs = {"quantity": {"min_value": 1}}\<close>.\<close>

definition quantity_min_value :: "int \<Rightarrow> exn + int" where
  "quantity_min_value q =
     (if q < 1 then Inl (ValidationError (Message ''Ensure this value is greater than or equal to 1.''))
      else Inr q)"

text \<open>
  One writable field of a serializer: a required field that is missing is an error,
  unless the update is partial; a field that is there is validated. The result is the
  field's errors and its validated value.
\<close>

definition run_field :: "string \<Rightarrow> bool \<Rightarrow> ('a \<Rightarrow> exn + 'b) \<Rightarrow> 'a option \<Rightarrow> exn + ((string \<times> string) list \<times> 'b option)" where
  "run_field name required validate v =
     (case v of
        None \<Rightarrow> Inr (if required then [(name, ''This field is required.'')] else [], None)
      | Some x \<Rightarrow>
          (case validate x of
             Inl (ValidationError (Message msg)) \<Rightarrow> Inr ([(name, msg)], None)
           | Inl e \<Rightarrow> Inl e
           | Inr y \<Rightarrow> Inr ([], Some y)))"

text \<open>
  The fields in the order of \<open>Meta.fields\<close>. The hidden field \<open>user\<close> takes the user
  of the request, and is skipped in a partial update.
\<close>

definition CartItemSerializer_to_internal_value ::
  "db \<Rightarrow> bool \<Rightarrow> pk \<Rightarrow> cart_item_data \<Rightarrow> exn + cart_item_attrs" where
  "CartItemSerializer_to_internal_value s partial user d =
     (case run_field ''menu_item_id'' (\<not> partial) (validate_menu_item_id s) (cd_menu_item_id d) of
        Inl e \<Rightarrow> Inl e
      | Inr (errs1, m) \<Rightarrow>
          (case run_field ''quantity'' (\<not> partial) quantity_min_value (cd_quantity d) of
             Inl e \<Rightarrow> Inl e
           | Inr (errs2, q) \<Rightarrow>
               if errs1 @ errs2 \<noteq> [] then Inl (ValidationError (Fields (errs1 @ errs2)))
               else Inr \<lparr>ca_user = (if partial then None else Some user),
                         ca_menu_item_id = m, ca_quantity = q\<rparr>))"

text \<open>
  \<open>Meta.validators\<close>: the \<open>UniqueTogetherValidator\<close> on \<open>user\<close> and
  \<open>menu_item_id\<close> over all cart items. In an update the values the data does not give
  are the instance's, and the instance itself is left out of the search.
\<close>

definition UniqueTogetherValidator :: "db \<Rightarrow> CartItem option \<Rightarrow> cart_item_attrs \<Rightarrow> exn + cart_item_attrs" where
  "UniqueTogetherValidator s instance a =
     (let u = (case ca_user a of Some u \<Rightarrow> Some u | None \<Rightarrow> map_option ci_user instance);
          m = (case ca_menu_item_id a of Some m \<Rightarrow> Some m | None \<Rightarrow> map_option ci_menu_item instance)
      in case (u, m) of
           (Some u, Some m) \<Rightarrow>
             if \<exists>i \<in> set (cart_items s).
                  ci_user i = u \<and> ci_menu_item i = m \<and> Some (ci_id i) \<noteq> map_option ci_id instance
             then Inl (ValidationError (Fields
                    [(''non_field_errors'', ''The fields user, menu_item_id must make a unique set.'')]))
             else Inr a
         | _ \<Rightarrow> Inl (ValidationError (Fields [(''non_field_errors'', ''This field is required.'')])))"

definition CartItemSerializer_is_valid ::
  "db \<Rightarrow> CartItem option \<Rightarrow> bool \<Rightarrow> pk \<Rightarrow> cart_item_data \<Rightarrow> exn + cart_item_attrs" where
  "CartItemSerializer_is_valid s instance partial user d =
     (case CartItemSerializer_to_internal_value s partial user d of
        Inl e \<Rightarrow> Inl e
      | Inr a \<Rightarrow> UniqueTogetherValidator s instance a)"

text \<open>\<open>create\<close>: the user's cart, made when the user has none, then the cart item in it.\<close>

definition CartItemSerializer_create :: "db \<Rightarrow> cart_item_attrs \<Rightarrow> exn + (CartItem \<times> db)" where
  "CartItemSerializer_create s validated_data =
     (case ca_user validated_data of
        None \<Rightarrow> Inl KeyError
      | Some user \<Rightarrow>
          (case (case user_cart s user of Some c \<Rightarrow> Inr (c, s) | None \<Rightarrow> Cart_create s user) of
             Inl e \<Rightarrow> Inl e
           | Inr (cart, s1) \<Rightarrow>
               (case (ca_menu_item_id validated_data, ca_quantity validated_data) of
                  (Some m, Some q) \<Rightarrow> CartItem_create s1 (cart_id cart) user m q
                | _ \<Rightarrow> Inl IntegrityError)))"

text \<open>The inherited \<open>update\<close>: every validated value is set on the instance, which is
  then saved.\<close>

definition CartItemSerializer_update :: "db \<Rightarrow> CartItem \<Rightarrow> cart_item_attrs \<Rightarrow> exn + (CartItem \<times> db)" where
  "CartItemSerializer_update s instance validated_data =
     (let i = instance\<lparr>
            ci_user := (case ca_user validated_data of Some u \<Rightarrow> u | None \<Rightarrow> ci_user instance),
            ci_menu_item := (case ca_menu_item_id validated_data of Some m \<Rightarrow> m | None \<Rightarrow> ci_menu_item instance),
            ci_quantity := (case ca_quantity validated_data of Some q \<Rightarrow> q | None \<Rightarrow> ci_quantity instance)\<rparr>
      in case CartItem_save s i of Inl e \<Rightarrow> Inl e | Inr s' \<Rightarrow> Inr (i, s'))"

subsection \<open>OrderSerializer\<close>



record order_data =
  od_delivery_crew :: "pk option option"
  od_status :: "bool option"

record order_attrs =
  oa_user :: "pk option"
  oa_delivery_crew :: "pk option option"
  oa_status :: "bool option"

definition validate_user :: "db \<Rightarrow> pk \<Rightarrow> exn + pk" where
  "validate_user s v =
     (if \<not> (user_cart_items s v \<noteq> [])
      then Inl (ValidationError (Message ''Cannot create order for user with an empty cart''))
      else Inr v)"

text \<open>The field is nullable, and the method is called with the null value as well, where
  \<open>value.groups\<close> is an attribute of \<open>None\<close>.\<close>

definition validate_delivery_crew :: "db \<Rightarrow> pk option \<Rightarrow> exn + pk option" where
  "validate_delivery_crew s v =
     (case v of
        None \<Rightarrow> Inl AttributeError
      | Some u \<Rightarrow>
          if \<not> in_group s u ''Delivery Crew''
          then Inl (ValidationError (Message ''Invalid delivery crew ID''))
          else Inr v)"

text \<open>The related field resolves a primary key to a user before the method sees it.\<close>

definition delivery_crew_field :: "db \<Rightarrow> pk option \<Rightarrow> exn + pk option" where
  "delivery_crew_field s v =
     (case v of
        None \<Rightarrow> validate_delivery_crew s None
      | Some k \<Rightarrow>
          if \<exists>u \<in> set (users s). user_id u = k then validate_delivery_crew s (Some k)
          else Inl (ValidationError (Message ''Invalid pk - object does not exist.'')))"

definition OrderSerializer_fields :: "string list" where
  "OrderSerializer_fields =
     [''id'', ''user'', ''delivery_crew'', ''status'', ''date'', ''order_items'', ''total'']"

text \<open>\<open>HiddenFieldSerializerMixin.get_fields\<close>: each hidden field is popped from the
  fields of the serializer.\<close>

fun get_fields :: "string list \<Rightarrow> string list \<Rightarrow> string list" where
  "get_fields flds [] = flds"
| "get_fields flds (field # hidden_fields) = get_fields (removeAll field flds) hidden_fields"

text \<open>
  The writable fields among \<open>flds\<close>, in their order: \<open>user\<close> (hidden, the user of the
  request, set in a creation only), \<open>delivery_crew\<close> and \<open>status\<close> (neither
  required). A field that is not among \<open>flds\<close> is not read from the data.
\<close>

definition OrderSerializer_to_internal_value ::
  "db \<Rightarrow> string list \<Rightarrow> bool \<Rightarrow> pk \<Rightarrow> order_data \<Rightarrow> exn + order_attrs" where
  "OrderSerializer_to_internal_value s flds creating user d =
     (case (if ''user'' \<in> set flds \<and> creating
            then run_field ''user'' True (validate_user s) (Some user)
            else Inr ([], None)) of
        Inl e \<Rightarrow> Inl e
      | Inr (errs1, u) \<Rightarrow>
          (case (if ''delivery_crew'' \<in> set flds
                 then run_field ''delivery_crew'' False (delivery_crew_field s) (od_delivery_crew d)
                 else Inr ([], None)) of
             Inl e \<Rightarrow> Inl e
           | Inr (errs2, c) \<Rightarrow>
               (case (if ''status'' \<in> set flds
                      then run_field ''status'' False Inr (od_status d)
                      else Inr ([], None)) of
                  Inl e \<Rightarrow> Inl e
                | Inr (errs3, st) \<Rightarrow>
                    if errs1 @ errs2 @ errs3 \<noteq> []
                    then Inl (ValidationError (Fields (errs1 @ errs2 @ errs3)))
                    else Inr \<lparr>oa_user = u, oa_delivery_crew = c, oa_status = st\<rparr>)))"

text \<open>The loop of \<open>create\<close> over the user's cart items.\<close>

fun order_items_loop :: "db \<Rightarrow> pk \<Rightarrow> CartItem list \<Rightarrow> exn + db" where
  "order_items_loop s ord [] = Inr s"
| "order_items_loop s ord (item # items) =
     (case get_menu_item s (ci_menu_item item) of
        None \<Rightarrow> Inl DoesNotExist
      | Some m \<Rightarrow>
          (case OrderItem_create s ord (ci_menu_item item) (ci_quantity item) (mi_price m)
                  (mi_price m * ci_quantity item) of
             Inl e \<Rightarrow> Inl e
           | Inr s' \<Rightarrow> order_items_loop s' ord items))"

definition OrderSerializer_create :: "db \<Rightarrow> order_attrs \<Rightarrow> nat \<Rightarrow> exn + (Order \<times> db)" where
  "OrderSerializer_create s validated_data today =
     (case oa_user validated_data of
        None \<Rightarrow> Inl IntegrityError
      | Some user \<Rightarrow>
          (let (ord, s1) = Order_create s user (oa_delivery_crew validated_data)
                              (oa_status validated_data) today
           in case order_items_loop s1 (order_id ord) (user_cart_items s1 user) of
                Inl e \<Rightarrow> Inl e
              | Inr s2 \<Rightarrow>
                  (case user_cart s2 user of
                     None \<Rightarrow> Inl DoesNotExist
                   | Some c \<Rightarrow> Inr (ord, Cart_delete s2 c))))"

definition OrderSerializer_update :: "db \<Rightarrow> Order \<Rightarrow> order_attrs \<Rightarrow> Order \<times> db" where
  "OrderSerializer_update s instance validated_data =
     (let ord = instance\<lparr>
            order_user := (case oa_user validated_data of Some u \<Rightarrow> u | None \<Rightarrow> order_user instance),
            order_delivery_crew := (case oa_delivery_crew validated_data of Some c \<Rightarrow> c
                                     | None \<Rightarrow> order_delivery_crew instance),
            order_status := (case oa_status validated_data of Some b \<Rightarrow> b | None \<Rightarrow> order_status instance)\<rparr>
      in (ord, Order_save s ord))"

section \<open>Views (LittleLemonAPI/views.py)\<close>

text \<open>
  A view below is the action that runs once the permission classes of its view set have
  let the request through, for the authenticated user \<open>user\<close>. A validation error is
  answered with 400 and a failed lookup with 404, both before anything is written.
\<close>

subsection \<open>CartItemViewSet\<close>

definition CartItemViewSet_get_queryset :: "db \<Rightarrow> pk \<Rightarrow> CartItem list" where
  "CartItemViewSet_get_queryset s user = filter (\<lambda>i. ci_user i = user) (cart_items s)"

definition CartItemViewSet_create :: "db \<Rightarrow> pk \<Rightarrow> cart_item_data \<Rightarrow> outcome" where
  "CartItemViewSet_create s user d =
     (case CartItemSerializer_is_valid s None False user d of
        Inl (ValidationError _) \<Rightarrow> Response 400 s
      | Inl e \<Rightarrow> Raised e
      | Inr a \<Rightarrow>
          (case CartItemSerializer_create s a of
             Inl e \<Rightarrow> Raised e
           | Inr (_, s') \<Rightarrow> Response 201 s'))"

definition CartItemViewSet_update :: "db \<Rightarrow> bool \<Rightarrow> pk \<Rightarrow> pk \<Rightarrow> cart_item_data \<Rightarrow> outcome" where
  "CartItemViewSet_update s partial user k d =
     (case find (\<lambda>i. ci_id i = k) (CartItemViewSet_get_queryset s user) of
        None \<Rightarrow> Response 404 s
      | Some instance \<Rightarrow>
          (case CartItemSerializer_is_valid s (Some instance) partial user d of
             Inl (ValidationError _) \<Rightarrow> Response 400 s
           | Inl e \<Rightarrow> Raised e
           | Inr a \<Rightarrow>
               (case CartItemSerializer_update s instance a of
                  Inl e \<Rightarrow> Raised e
                | Inr (_, s') \<Rightarrow> Response 200 s')))"

definition destroy_all :: "db \<Rightarrow> pk \<Rightarrow> outcome" where
  "destroy_all s user =
     (case user_cart s user of
        Some c \<Rightarrow> Response 204 (Cart_delete s c)
      | None \<Rightarrow> Response 204 s)"

subsection \<open>OrderViewSet\<close>

definition OrderViewSet_get_queryset :: "db \<Rightarrow> pk \<Rightarrow> Order list" where
  "OrderViewSet_get_queryset s user =
     (if in_group s user ''Manager'' then orders s
      else if in_group s user ''Delivery Crew''
      then filter (\<lambda>x. order_user x = user \<or> order_delivery_crew x = Some user) (orders s)
      else filter (\<lambda>x. order_user x = user) (orders s))"

text \<open>The serializer class of a request is \<open>OrderSerializer\<close> under the mixin with these
  hidden fields.\<close>

definition get_serializer_class :: "db \<Rightarrow> string \<Rightarrow> pk \<Rightarrow> string list" where
  "get_serializer_class s method user =
     (if method = ''POST'' then [] @ [''delivery_crew''] @ [''status'']
      else if method \<in> set [''PUT'', ''PATCH''] \<and> in_group s user ''Delivery Crew''
      then [] @ [''delivery_crew'']
      else [])"

definition OrderViewSet_create :: "db \<Rightarrow> pk \<Rightarrow> order_data \<Rightarrow> nat \<Rightarrow> outcome" where
  "OrderViewSet_create s user d today =
     (case OrderSerializer_to_internal_value s
             (get_fields OrderSerializer_fields (get_serializer_class s ''POST'' user)) True user d of
        Inl (ValidationError _) \<Rightarrow> Response 400 s
      | Inl e \<Rightarrow> Raised e
      | Inr a \<Rightarrow>
          (case OrderSerializer_create s a today of
             Inl e \<Rightarrow> Raised e
           | Inr (_, s') \<Rightarrow> Response 201 s'))"

definition OrderViewSet_update :: "db \<Rightarrow> string \<Rightarrow> pk \<Rightarrow> pk \<Rightarrow> order_data \<Rightarrow> outcome" where
  "OrderViewSet_update s method user k d =
     (case find (\<lambda>x. order_id x = k) (OrderViewSet_get_queryset s user) of
        None \<Rightarrow> Response 404 s
      | Some instance \<Rightarrow>
          (case OrderSerializer_to_internal_value s
                  (get_fields OrderSerializer_fields (get_serializer_class s method user)) False user d of
             Inl (ValidationError _) \<Rightarrow> Response 400 s
           | Inl e \<Rightarrow> Raised e
           | Inr a \<Rightarrow> Response 200 (snd (OrderSerializer_update s instance a))))"

subsection \<open>GroupUserViewSet\<close>

text \<open>
  \<open>slugify\<close> is the function of the library of that name, a parameter here.
  \<open>initialize_request\<close> takes the first group whose slugified name is the
  \<open>group_name\<close> of the URL.
\<close>

definition initialize_request :: "(string \<Rightarrow> string) \<Rightarrow> db \<Rightarrow> string \<Rightarrow> exn + Group" where
  "initialize_request slugify s group_name_kw =
     (case find (\<lambda>g. slugify (group_name g) = group_name_kw) (groups s) of
        None \<Rightarrow> Inl (Http404 ''Group not found'')
      | Some g \<Rightarrow> Inr g)"

definition GroupUserViewSet_get_queryset :: "db \<Rightarrow> Group \<Rightarrow> User list" where
  "GroupUserViewSet_get_queryset s g =
     filter (\<lambda>u. (user_id u, group_id g) \<in> set (user_groups s)) (users s)"

text \<open>\<open>create\<close>: \<open>request.data["username"]\<close>, then the user of that name or a 404, then
  the user is added to the group.\<close>

definition GroupUserViewSet_create :: "db \<Rightarrow> Group \<Rightarrow> string option \<Rightarrow> exn + (nat \<times> db)" where
  "GroupUserViewSet_create s g data_username =
     (case data_username of
        None \<Rightarrow> Inl KeyError
      | Some n \<Rightarrow>
          (case find (\<lambda>u. username u = n) (users s) of
             None \<Rightarrow> Inl (Http404 ''No User matches the given query.'')
           | Some u \<Rightarrow>
               Inr (201, s\<lparr>user_groups :=
                      (if (user_id u, group_id g) \<in> set (user_groups s) then user_groups s
                       else user_groups s @ [(user_id u, group_id g)])\<rparr>)))"

definition GroupUserViewSet_destroy :: "db \<Rightarrow> Group \<Rightarrow> pk \<Rightarrow> exn + (nat \<times> db)" where
  "GroupUserViewSet_destroy s g k =
     (case find (\<lambda>u. user_id u = k) (GroupUserViewSet_get_queryset s g) of
        None \<Rightarrow> Inl (Http404 ''No User matches the given query.'')
      | Some u \<Rightarrow>
          Inr (200, s\<lparr>user_groups := removeAll (user_id u, group_id g) (user_groups s)\<rparr>))"

text \<open>
  The requests of the group-membership endpoints, and their dispatch: the group is
  resolved first, then the permission class decides (\<open>check_permissions\<close>, a parameter:
  the status of the refusal, if it refuses), then the action runs. An \<open>Http404\<close> is
  answered with 404 wherever it is raised.
\<close>

datatype group_request = ListUsers | RetrieveUser pk | AddUser "string option" | RemoveUser pk

definition GroupUserViewSet_dispatch ::
  "(string \<Rightarrow> string) \<Rightarrow> (db \<Rightarrow> pk \<Rightarrow> group_request \<Rightarrow> nat option) \<Rightarrow> db \<Rightarrow> pk \<Rightarrow> string \<Rightarrow> group_request \<Rightarrow> outcome" where
  "GroupUserViewSet_dispatch slugify check_permissions s user group_name_kw r =
     (case initialize_request slugify s group_name_kw of
        Inl (Http404 _) \<Rightarrow> Response 404 s
      | Inl e \<Rightarrow> Raised e
      | Inr g \<Rightarrow>
          (case check_permissions s user r of
             Some denied \<Rightarrow> Response denied s
           | None \<Rightarrow>
               (case (case r of
                        ListUsers \<Rightarrow> Inr (200, s)
                      | RetrieveUser k \<Rightarrow>
                          (case find (\<lambda>u. user_id u = k) (GroupUserViewSet_get_queryset s g) of
                             None \<Rightarrow> Inl (Http404 ''No User matches the given query.'')
                           | Some _ \<Rightarrow> Inr (200, s))
                      | AddUser n \<Rightarrow> GroupUserViewSet_create s g n
                      | RemoveUser k \<Rightarrow> GroupUserViewSet_destroy s g k) of
                  Inl (Http404 _) \<Rightarrow> Response 404 s
                | Inl e \<Rightarrow> Raised e
                | Inr (status, s') \<Rightarrow> Response status s')))"

section \<open>Invariants of the database\<close>

text \<open>
  Every cart item is in a cart of its own user: the cart of its \<open>cart\<close> key, which is
  one row, has the user of its \<open>user\<close> key.
\<close>

definition cart_items_owned :: "db \<Rightarrow> bool" where
  "cart_items_owned s =
     (distinct (map cart_id (carts s)) \<and>
      (\<forall>i \<in> set (cart_items s). \<exists>c \<in> set (carts s). cart_id c = ci_cart i \<and> cart_user c = ci_user i))"

text \<open>Every cart item has a quantity of at least 1.\<close>

definition quantities_positive :: "db \<Rightarrow> bool" where
  "quantities_positive s = (\<forall>i \<in> set (cart_items s). 1 \<le> ci_quantity i)"

section \<open>Example databases\<close>

text \<open>Two users, of whom the second is in the delivery crew, and two menu items; no
  carts and no orders.\<close>

definition db0 :: db where
  "db0 = \<lparr>users = [\<lparr>user_id = 1, username = ''ann''\<rparr>, \<lparr>user_id = 2, username = ''bob''\<rparr>],
           groups = [\<lparr>group_id = 1, group_name = ''Manager''\<rparr>,
                     \<lparr>group_id = 2, group_name = ''Delivery Crew''\<rparr>],
           user_groups = [(2, 2)],
           menu_items = [\<lparr>mi_id = 1, mi_title = ''tea'', mi_price = 250, mi_featured = False,
                           mi_category = 1\<rparr>,
                         \<lparr>mi_id = 2, mi_title = ''pie'', mi_price = 400, mi_featured = True,
                           mi_category = 1\<rparr>],
           carts = [], cart_items = [], orders = [], order_items = []\<rparr>"

text \<open>The first user has a cart: empty, with one item, with two items, and with the
  quantity of the second item changed.\<close>

definition db_empty_cart :: db where
  "db_empty_cart = db0\<lparr>carts := [\<lparr>cart_id = 1, cart_user = 1\<rparr>]\<rparr>"

definition db1a :: db where
  "db1a = db0\<lparr>carts := [\<lparr>cart_id = 1, cart_user = 1\<rparr>],
               cart_items := [\<lparr>ci_id = 1, ci_user = 1, ci_cart = 1, ci_menu_item = 1, ci_quantity = 2\<rparr>]\<rparr>"

definition db1 :: db where
  "db1 = db0\<lparr>carts := [\<lparr>cart_id = 1, cart_user = 1\<rparr>],
              cart_items := [\<lparr>ci_id = 1, ci_user = 1, ci_cart = 1, ci_menu_item = 1, ci_quantity = 2\<rparr>,
                             \<lparr>ci_id = 2, ci_user = 1, ci_cart = 1, ci_menu_item = 2, ci_quantity = 3\<rparr>]\<rparr>"

definition db1u :: db where
  "db1u = db0\<lparr>carts := [\<lparr>cart_id = 1, cart_user = 1\<rparr>],
               cart_items := [\<lparr>ci_id = 1, ci_user = 1, ci_cart = 1, ci_menu_item = 1, ci_quantity = 2\<rparr>,
                              \<lparr>ci_id = 2, ci_user = 1, ci_cart = 1, ci_menu_item = 2, ci_quantity = 9\<rparr>]\<rparr>"

text \<open>The first user has placed the order of the two items on day 7.\<close>

definition db1_ordered :: db where
  "db1_ordered = db0\<lparr>
     orders := [\<lparr>order_id = 1, order_user = 1, order_delivery_crew = None, order_status = False,
                 order_date = 7\<rparr>],
     order_items := [\<lparr>oi_id = 1, oi_order = 1, oi_menu_item = 1, oi_quantity = 2,
                       oi_unit_price = 250, oi_price = 500\<rparr>,
                     \<lparr>oi_id = 2, oi_order = 1, oi_menu_item = 2, oi_quantity = 3,
                       oi_unit_price = 400, oi_price = 1200\<rparr>]\<rparr>"

text \<open>Beside the cart of the first user, an earlier order of the second, placed when tea
  was cheaper; then the first user made a manager; then that order assigned to the second
  user as its delivery crew.\<close>

definition db2 :: db where
  "db2 = db1\<lparr>orders := [\<lparr>order_id = 1, order_user = 2, order_delivery_crew = None,
                            order_status = False, order_date = 7\<rparr>],
              order_items := [\<lparr>oi_id = 1, oi_order = 1, oi_menu_item = 1, oi_quantity = 2,
                                oi_unit_price = 200, oi_price = 400\<rparr>,
                              \<lparr>oi_id = 2, oi_order = 1, oi_menu_item = 2, oi_quantity = 1,
                                oi_unit_price = 400, oi_price = 400\<rparr>]\<rparr>"

definition db_mgr :: db where
  "db_mgr = db2\<lparr>user_groups := [(2, 2), (1, 1)]\<rparr>"

definition db_mgr_assigned :: db where
  "db_mgr_assigned = db_mgr\<lparr>orders := [\<lparr>order_id = 1, order_user = 2, order_delivery_crew = Some 2,
                                         order_status = False, order_date = 7\<rparr>]\<rparr>"

text \<open>A slugify on the names of the two groups.\<close>

definition slugify_names :: "string \<Rightarrow> string" where
  "slugify_names n =
     (if n = ''Manager'' then ''manager''
      else if n = ''Delivery Crew'' then ''delivery-crew''
      else n)"

section \<open>Properties\<close>

subsection \<open>The cart of a user\<close>

lemma user_cart_Some:
  "user_cart s u = Some c \<Longrightarrow> c \<in> set (carts s) \<and> cart_user c = u"
  unfolding user_cart_def by (auto simp: find_Some_iff)

lemma user_cart_None:
  "(user_cart s u = None) = (\<forall>c \<in> set (carts s). cart_user c \<noteq> u)"
  unfolding user_cart_def by (auto simp: find_None_iff)

text \<open>Under the one-to-one constraint, deleting the user's cart leaves the user with none.\<close>

lemma user_cart_after_delete:
  assumes "distinct (map cart_user (carts s))" and "user_cart s u = Some c"
  shows "user_cart (Cart_delete s c) u = None"
proof -
  from assms(2) have c: "c \<in> set (carts s)" "cart_user c = u"
    by (simp_all add: user_cart_Some)
  from assms(1) have inj: "inj_on cart_user (set (carts s))"
    by (simp add: distinct_map)
  have "\<forall>x \<in> set (carts (Cart_delete s c)). cart_user x \<noteq> u"
  proof
    fix x assume "x \<in> set (carts (Cart_delete s c))"
    then have x: "x \<in> set (carts s)" "cart_id x \<noteq> cart_id c"
      by (simp_all add: Cart_delete_def)
    show "cart_user x \<noteq> u"
    proof
      assume "cart_user x = u"
      with c x(1) inj have "x = c" by (auto dest: inj_onD)
      with x(2) show False by simp
    qed
  qed
  then show ?thesis by (simp add: user_cart_None)
qed

lemma cart_cart_items_after_delete:
  "cart_cart_items (Cart_delete s c) (cart_id c) = []"
  by (simp add: cart_cart_items_def Cart_delete_def)

subsection \<open>Emptying the cart\<close>

text \<open>
  C9: \<open>destroy_all\<close> answers 204 whether or not the user has a cart; it deletes the
  cart, with its items, if there is one and leaves the database as it is otherwise; run
  again on the database it leaves, it answers 204 and leaves that database unchanged.
  The carts obey the one-to-one constraint of \<open>Cart.user\<close>.
\<close>

theorem destroy_all_idempotent:
  assumes "distinct (map cart_user (carts s))"
  shows "\<exists>s'. destroy_all s user = Response 204 s' \<and> destroy_all s' user = Response 204 s'
           \<and> user_cart s' user = None
           \<and> (case user_cart s user of None \<Rightarrow> s' = s
               | Some c \<Rightarrow> s' = Cart_delete s c \<and> c \<notin> set (carts s')
                           \<and> cart_cart_items s' (cart_id c) = [])"
proof (cases "user_cart s user")
  case None
  then show ?thesis by (simp add: destroy_all_def)
next
  case (Some c)
  with assms have "user_cart (Cart_delete s c) user = None"
    by (rule user_cart_after_delete)
  moreover have "c \<notin> set (carts (Cart_delete s c))"
    by (simp add: Cart_delete_def)
  ultimately show ?thesis using Some
    by (simp add: destroy_all_def cart_cart_items_after_delete)
qed

theorem destroy_all_idempotent_witness:
  "distinct (map cart_user (carts db1)) \<and> user_cart db1 1 \<noteq> None
   \<and> (\<exists>s'. destroy_all db1 1 = Response 204 s' \<and> destroy_all s' 1 = Response 204 s'
           \<and> carts s' = [] \<and> cart_items s' = [])"
proof -
  have h: "distinct (map cart_user (carts db1))" by (simp add: db1_def db0_def)
  have c: "user_cart db1 1 = Some \<lparr>cart_id = 1, cart_user = 1\<rparr>"
    by (simp add: user_cart_def db1_def db0_def)
  from destroy_all_idempotent [OF h, of 1] obtain s' where
    s': "destroy_all db1 1 = Response 204 s'" "destroy_all s' 1 = Response 204 s'"
        "s' = Cart_delete db1 \<lparr>cart_id = 1, cart_user = 1\<rparr>"
    by (auto simp: c)
  have "carts s' = []" "cart_items s' = []"
    by (simp_all add: s'(3) Cart_delete_def db1_def db0_def)
  with h c s' show ?thesis by auto
qed

subsection \<open>Totals\<close>



lemma cart_total_loop_missing:
  "\<exists>i \<in> set items. get_menu_item s (ci_menu_item i) = None \<Longrightarrow>
   cart_total_loop s tot items = Inl DoesNotExist"
  by (induction items arbitrary: tot) (auto split: option.splits)




subsection \<open>Placing an order\<close>

text \<open>
  The serializer of a POST request to the orders: its fields, and what it makes of a body.
\<close>

lemma post_fields:
  "get_fields OrderSerializer_fields (get_serializer_class s ''POST'' user)
     = [''id'', ''user'', ''date'', ''order_items'', ''total'']"
  by (simp add: OrderSerializer_fields_def get_serializer_class_def)

lemma post_internal_value:
  "OrderSerializer_to_internal_value s
     (get_fields OrderSerializer_fields (get_serializer_class s ''POST'' user)) True user d =
   (if user_cart_items s user = []
    then Inl (ValidationError (Fields [(''user'', ''Cannot create order for user with an empty cart'')]))
    else Inr \<lparr>oa_user = Some user, oa_delivery_crew = None, oa_status = None\<rparr>)"
  by (simp add: post_fields OrderSerializer_to_internal_value_def run_field_def validate_user_def)

lemma OrderViewSet_create_eq:
  "OrderViewSet_create s user d today =
   (if user_cart_items s user = [] then Response 400 s
    else case OrderSerializer_create s \<lparr>oa_user = Some user, oa_delivery_crew = None, oa_status = None\<rparr> today of
           Inl e \<Rightarrow> Raised e
         | Inr (ord, s') \<Rightarrow> Response 201 s')"
  by (simp add: OrderViewSet_create_def post_internal_value)

lemma get_menu_item_order_items [simp]:
  "get_menu_item (s\<lparr>order_items := x\<rparr>) = get_menu_item s"
  by (simp add: get_menu_item_def fun_eq_iff)

lemma order_items_loop_result:
  "order_items_loop s ord items = Inr s' \<Longrightarrow>
   \<exists>news. s' = s\<lparr>order_items := order_items s @ news\<rparr> \<and>
     list_all2 (\<lambda>i n. oi_order n = ord \<and> oi_menu_item n = ci_menu_item i
                      \<and> oi_quantity n = ci_quantity i
                      \<and> (\<exists>m. get_menu_item s (ci_menu_item i) = Some m
                              \<and> oi_unit_price n = mi_price m
                              \<and> oi_price n = mi_price m * ci_quantity i)) items news"
proof (induction items arbitrary: s)
  case Nil
  then show ?case by simp
next
  case (Cons item items)
  from Cons.prems obtain m s1 where
    m: "get_menu_item s (ci_menu_item item) = Some m" and
    s1: "OrderItem_create s ord (ci_menu_item item) (ci_quantity item) (mi_price m)
           (mi_price m * ci_quantity item) = Inr s1" and
    rest: "order_items_loop s1 ord items = Inr s'"
    by (auto split: option.splits sum.splits)
  from s1 obtain n where
    n: "s1 = s\<lparr>order_items := order_items s @ [n]\<rparr>" "oi_order n = ord"
       "oi_menu_item n = ci_menu_item item" "oi_quantity n = ci_quantity item"
       "oi_unit_price n = mi_price m" "oi_price n = mi_price m * ci_quantity item"
    by (auto simp: OrderItem_create_def split: if_splits)
  from Cons.IH [OF rest] obtain news where
    news: "s' = s1\<lparr>order_items := order_items s1 @ news\<rparr>"
      "list_all2 (\<lambda>i n. oi_order n = ord \<and> oi_menu_item n = ci_menu_item i
                      \<and> oi_quantity n = ci_quantity i
                      \<and> (\<exists>m. get_menu_item s1 (ci_menu_item i) = Some m
                              \<and> oi_unit_price n = mi_price m
                              \<and> oi_price n = mi_price m * ci_quantity i)) items news"
    by blast
  have "s' = s\<lparr>order_items := order_items s @ (n # news)\<rparr>"
    by (simp add: news(1) n(1))
  moreover have "list_all2 (\<lambda>i n. oi_order n = ord \<and> oi_menu_item n = ci_menu_item i
                      \<and> oi_quantity n = ci_quantity i
                      \<and> (\<exists>m. get_menu_item s (ci_menu_item i) = Some m
                              \<and> oi_unit_price n = mi_price m
                              \<and> oi_price n = mi_price m * ci_quantity i)) (item # items) (n # news)"
    using news(2) n m by (simp add: n(1))
  ultimately show ?case by blast
qed

lemma fold_max_ge: "(a::int) \<le> fold max ks a"
  by (induction ks arbitrary: a) (auto intro: order_trans [OF max.cobounded2])

lemma fold_max_mem: "k \<in> set ks \<Longrightarrow> (k::int) \<le> fold max ks a"
proof (induction ks arbitrary: a)
  case Nil
  then show ?case by simp
next
  case (Cons x ks)
  show ?case
  proof (cases "k = x")
    case True
    have "x \<le> max x a" by simp
    also have "\<dots> \<le> fold max ks (max x a)" by (rule fold_max_ge)
    finally show ?thesis using True by simp
  next
    case False
    with Cons.prems have "k \<in> set ks" by simp
    then show ?thesis by (simp add: Cons.IH)
  qed
qed

lemma fresh_pk_notin: "fresh_pk ks \<notin> set ks"
proof
  assume "fresh_pk ks \<in> set ks"
  then have "fresh_pk ks \<le> fold max ks 0" by (rule fold_max_mem)
  then show False by (simp add: fresh_pk_def)
qed

lemma user_cart_items_other_tables [simp]:
  "user_cart_items (s\<lparr>orders := x\<rparr>) = user_cart_items s"
  "user_cart_items (s\<lparr>order_items := y\<rparr>) = user_cart_items s"
  by (simp_all add: user_cart_items_def fun_eq_iff)

lemma user_cart_other_tables [simp]:
  "user_cart (s\<lparr>orders := x\<rparr>) = user_cart s"
  "user_cart (s\<lparr>order_items := y\<rparr>) = user_cart s"
  by (simp_all add: user_cart_def fun_eq_iff)

lemma get_menu_item_orders [simp]:
  "get_menu_item (s\<lparr>orders := x\<rparr>) = get_menu_item s"
  by (simp add: get_menu_item_def fun_eq_iff)

lemma OrderSerializer_create_result:
  assumes "OrderSerializer_create s \<lparr>oa_user = Some user, oa_delivery_crew = crew, oa_status = st\<rparr> today
             = Inr (ord, s')"
  shows "\<exists>news c.
           ord = fst (Order_create s user crew st today)
         \<and> user_cart s user = Some c
         \<and> s' = Cart_delete (s\<lparr>orders := orders s @ [ord], order_items := order_items s @ news\<rparr>) c
         \<and> list_all2 (\<lambda>i n. oi_order n = order_id ord \<and> oi_menu_item n = ci_menu_item i
                      \<and> oi_quantity n = ci_quantity i
                      \<and> (\<exists>m. get_menu_item s (ci_menu_item i) = Some m
                              \<and> oi_unit_price n = mi_price m
                              \<and> oi_price n = mi_price m * ci_quantity i)) (user_cart_items s user) news"
proof -
  obtain ord1 s1 where o1: "Order_create s user crew st today = (ord1, s1)"
    by (cases "Order_create s user crew st today")
  then have s1: "s1 = s\<lparr>orders := orders s @ [ord1]\<rparr>"
    by (auto simp: Order_create_def Let_def)
  from assms o1 obtain s2 c where
    loop: "order_items_loop s1 (order_id ord1) (user_cart_items s1 user) = Inr s2" and
    c: "user_cart s2 user = Some c" and
    res: "ord = ord1" "s' = Cart_delete s2 c"
    by (auto simp: OrderSerializer_create_def split: sum.splits option.splits)
  from order_items_loop_result [OF loop] obtain news where
    news: "s2 = s1\<lparr>order_items := order_items s1 @ news\<rparr>"
      "list_all2 (\<lambda>i n. oi_order n = order_id ord1 \<and> oi_menu_item n = ci_menu_item i
                      \<and> oi_quantity n = ci_quantity i
                      \<and> (\<exists>m. get_menu_item s1 (ci_menu_item i) = Some m
                              \<and> oi_unit_price n = mi_price m
                              \<and> oi_price n = mi_price m * ci_quantity i)) (user_cart_items s1 user) news"
    by blast
  have "s' = Cart_delete (s\<lparr>orders := orders s @ [ord], order_items := order_items s @ news\<rparr>) c"
    by (simp add: res news(1) s1)
  moreover have "user_cart s user = Some c"
    using c by (simp add: news(1) s1)
  moreover have "ord = fst (Order_create s user crew st today)"
    by (simp add: res o1)
  ultimately show ?thesis using news(2) res(1)
    by (auto simp: s1)
qed

lemma Order_create_fields:
  "order_id (fst (Order_create s u crew st today)) = fresh_pk (map order_id (orders s))"
  "order_user (fst (Order_create s u crew st today)) = u"
  "order_delivery_crew (fst (Order_create s u None st today)) = None"
  "order_status (fst (Order_create s u crew None today)) = False"
  "order_date (fst (Order_create s u crew st today)) = today"
  by (simp_all add: Order_create_def Let_def)

text \<open>
  C1: when the creation of an order for a user succeeds (201), the user's cart was not
  empty; one order is added, for that user, and the order items added are, position by
  position, one per cart item of the user: each is of the new order, copies the cart
  item's menu item and quantity, and has the menu item's price at that moment as
  \<open>unit_price\<close> and that price times the quantity as \<open>price\<close>. Afterwards the
  user has no cart, the cart row is gone and no cart item points to it; the user has no
  cart item left where all of them were in that cart. The carts obey the one-to-one
  constraint of \<open>Cart.user\<close>.
\<close>

theorem order_creation_snapshots_cart:
  assumes "distinct (map cart_user (carts s))"
      and "OrderViewSet_create s user d today = Response 201 s'"
  shows "user_cart_items s user \<noteq> [] \<and> (\<exists>ord news c.
           orders s' = orders s @ [ord] \<and> order_user ord = user
         \<and> order_items s' = order_items s @ news
         \<and> list_all2 (\<lambda>i n. oi_order n = order_id ord \<and> oi_menu_item n = ci_menu_item i
                      \<and> oi_quantity n = ci_quantity i
                      \<and> (\<exists>m. get_menu_item s (ci_menu_item i) = Some m
                              \<and> oi_unit_price n = mi_price m
                              \<and> oi_price n = mi_price m * ci_quantity i)) (user_cart_items s user) news
         \<and> ((\<forall>n \<in> set (order_items s). oi_order n \<in> set (map order_id (orders s)))
               \<longrightarrow> order_order_items s' (order_id ord) = news)
         \<and> user_cart s user = Some c \<and> user_cart s' user = None \<and> c \<notin> set (carts s')
         \<and> cart_cart_items s' (cart_id c) = []
         \<and> ((\<forall>i \<in> set (user_cart_items s user). ci_cart i = cart_id c)
               \<longrightarrow> user_cart_items s' user = []))"
proof -
  from assms(2) have nonempty: "user_cart_items s user \<noteq> []"
    by (auto simp: OrderViewSet_create_eq split: if_splits)
  with assms(2) obtain ord where
    "OrderSerializer_create s \<lparr>oa_user = Some user, oa_delivery_crew = None, oa_status = None\<rparr> today
       = Inr (ord, s')"
    by (auto simp: OrderViewSet_create_eq split: sum.splits)
  from OrderSerializer_create_result [OF this] obtain news c where
    ord: "ord = fst (Order_create s user None None today)" and
    c: "user_cart s user = Some c" and
    s': "s' = Cart_delete (s\<lparr>orders := orders s @ [ord], order_items := order_items s @ news\<rparr>) c" and
    snap: "list_all2 (\<lambda>i n. oi_order n = order_id ord \<and> oi_menu_item n = ci_menu_item i
                      \<and> oi_quantity n = ci_quantity i
                      \<and> (\<exists>m. get_menu_item s (ci_menu_item i) = Some m
                              \<and> oi_unit_price n = mi_price m
                              \<and> oi_price n = mi_price m * ci_quantity i)) (user_cart_items s user) news"
    by blast
  let ?s2 = "s\<lparr>orders := orders s @ [ord], order_items := order_items s @ news\<rparr>"
  have c2: "user_cart ?s2 user = Some c" using c by simp
  have d2: "distinct (map cart_user (carts ?s2))" using assms(1) by simp
  have gone: "user_cart s' user = None"
    unfolding s' using d2 c2 by (rule user_cart_after_delete)
  have notin: "c \<notin> set (carts s')"
    by (simp add: s' Cart_delete_def)
  have empty: "cart_cart_items s' (cart_id c) = []"
    by (simp add: s' cart_cart_items_after_delete)
  have o: "orders s' = orders s @ [ord]" "order_items s' = order_items s @ news"
    by (simp_all add: s' Cart_delete_def)
  have u: "order_user ord = user" by (simp add: ord Order_create_fields)
  have all_new: "\<forall>n \<in> set news. oi_order n = order_id ord"
    using snap by (auto simp: list_all2_conv_all_nth in_set_conv_nth)
  have own: "(\<forall>n \<in> set (order_items s). oi_order n \<in> set (map order_id (orders s)))
               \<longrightarrow> order_order_items s' (order_id ord) = news"
  proof
    assume fk: "\<forall>n \<in> set (order_items s). oi_order n \<in> set (map order_id (orders s))"
    have "order_id ord \<notin> set (map order_id (orders s))"
      unfolding ord Order_create_fields by (rule fresh_pk_notin)
    with fk have "\<forall>n \<in> set (order_items s). oi_order n \<noteq> order_id ord" by metis
    then have "filter (\<lambda>n. oi_order n = order_id ord) (order_items s) = []"
      by (simp add: filter_empty_conv)
    moreover from all_new have "filter (\<lambda>n. oi_order n = order_id ord) news = news"
      by (simp add: filter_id_conv)
    ultimately show "order_order_items s' (order_id ord) = news"
      by (simp add: order_order_items_def o)
  qed
  have items: "(\<forall>i \<in> set (user_cart_items s user). ci_cart i = cart_id c)
               \<longrightarrow> user_cart_items s' user = []"
    by (auto simp: s' Cart_delete_def user_cart_items_def filter_empty_conv)
  from nonempty o u snap own c gone notin empty items show ?thesis by blast
qed

lemma order_db1:
  "OrderViewSet_create db1 1 d 7 = Response 201 db1_ordered"
  by (simp add: OrderViewSet_create_eq OrderSerializer_create_def Order_create_def
      OrderItem_create_def user_cart_items_def user_cart_def get_menu_item_def Cart_delete_def
      fresh_pk_def db1_def db0_def db1_ordered_def Let_def)

theorem order_creation_snapshots_cart_witness:
  "distinct (map cart_user (carts db1))
   \<and> OrderViewSet_create db1 1 \<lparr>od_delivery_crew = None, od_status = None\<rparr> 7 = Response 201 db1_ordered
   \<and> length (user_cart_items db1 1) = 2
   \<and> (\<exists>ord news c. orders db1_ordered = orders db1 @ [ord]
        \<and> order_items db1_ordered = order_items db1 @ news
        \<and> length news = length (user_cart_items db1 1)
        \<and> user_cart db1 1 = Some c \<and> user_cart db1_ordered 1 = None
        \<and> cart_cart_items db1_ordered (cart_id c) = [])"
proof -
  have h: "distinct (map cart_user (carts db1))" by (simp add: db1_def db0_def)
  have r: "OrderViewSet_create db1 1 \<lparr>od_delivery_crew = None, od_status = None\<rparr> 7
             = Response 201 db1_ordered"
    by (rule order_db1)
  have l: "length (user_cart_items db1 1) = 2"
    by (simp add: user_cart_items_def db1_def db0_def)
  from order_creation_snapshots_cart [OF h r] h r l show ?thesis
    by (auto dest: list_all2_lengthD)
qed

text \<open>
  C2: for a user without cart items, \<open>validate_user\<close> raises the validation error,
  the serializer of the POST request reports it for the field \<open>user\<close>, and the
  creation is answered with 400 and the database as it was: no order and no order item
  is made.
\<close>

theorem empty_cart_order_rejected:
  assumes "user_cart_items s user = []"
  shows "validate_user s user
           = Inl (ValidationError (Message ''Cannot create order for user with an empty cart''))
       \<and> OrderSerializer_to_internal_value s
           (get_fields OrderSerializer_fields (get_serializer_class s ''POST'' user)) True user d
           = Inl (ValidationError
                   (Fields [(''user'', ''Cannot create order for user with an empty cart'')]))
       \<and> OrderViewSet_create s user d today = Response 400 s"
  using assms by (simp add: validate_user_def post_internal_value OrderViewSet_create_eq)

theorem empty_cart_order_rejected_witness:
  "user_cart db_empty_cart 1 = Some \<lparr>cart_id = 1, cart_user = 1\<rparr>
   \<and> user_cart_items db_empty_cart 1 = []
   \<and> OrderViewSet_create db_empty_cart 1 \<lparr>od_delivery_crew = None, od_status = None\<rparr> 7
       = Response 400 db_empty_cart"
proof -
  have h: "user_cart_items db_empty_cart 1 = []"
    by (simp add: user_cart_items_def db_empty_cart_def db0_def)
  have c: "user_cart db_empty_cart 1 = Some \<lparr>cart_id = 1, cart_user = 1\<rparr>"
    by (simp add: user_cart_def db_empty_cart_def db0_def)
  from empty_cart_order_rejected [OF h, of "\<lparr>od_delivery_crew = None, od_status = None\<rparr>" 7] h c
  show ?thesis by simp
qed

text \<open>
  C10: for a POST request the hidden fields are \<open>delivery_crew\<close> and \<open>status\<close>,
  and the mixin removes both from the fields of the serializer; the outcome of the
  creation is the same for any two bodies, whatever they give for these fields; and the
  order a successful creation adds has no delivery crew and the status false.
\<close>

theorem order_post_hides_delivery_crew_and_status:
  "''delivery_crew'' \<in> set OrderSerializer_fields \<and> ''status'' \<in> set OrderSerializer_fields
   \<and> get_serializer_class s ''POST'' user = [''delivery_crew'', ''status'']
   \<and> ''delivery_crew'' \<notin> set (get_fields OrderSerializer_fields (get_serializer_class s ''POST'' user))
   \<and> ''status'' \<notin> set (get_fields OrderSerializer_fields (get_serializer_class s ''POST'' user))
   \<and> OrderViewSet_create s user d today = OrderViewSet_create s user d' today
   \<and> (OrderViewSet_create s user d today = Response 201 s' \<longrightarrow>
        (\<exists>ord. orders s' = orders s @ [ord] \<and> order_user ord = user
               \<and> order_delivery_crew ord = None \<and> order_status ord = False))"
proof -
  have "OrderViewSet_create s user d today = Response 201 s' \<longrightarrow>
        (\<exists>ord. orders s' = orders s @ [ord] \<and> order_user ord = user
               \<and> order_delivery_crew ord = None \<and> order_status ord = False)"
  proof
    assume "OrderViewSet_create s user d today = Response 201 s'"
    then obtain ord where
      "OrderSerializer_create s \<lparr>oa_user = Some user, oa_delivery_crew = None, oa_status = None\<rparr> today
         = Inr (ord, s')"
      by (auto simp: OrderViewSet_create_eq split: if_splits sum.splits)
    from OrderSerializer_create_result [OF this] obtain news c where
      ord: "ord = fst (Order_create s user None None today)" and
      s': "s' = Cart_delete (s\<lparr>orders := orders s @ [ord], order_items := order_items s @ news\<rparr>) c"
      by blast
    have "orders s' = orders s @ [ord]" by (simp add: s' Cart_delete_def)
    moreover have "order_user ord = user" "order_delivery_crew ord = None" "order_status ord = False"
      by (simp_all add: ord Order_create_fields)
    ultimately show "\<exists>ord. orders s' = orders s @ [ord] \<and> order_user ord = user
               \<and> order_delivery_crew ord = None \<and> order_status ord = False"
      by blast
  qed
  moreover have "OrderViewSet_create s user d today = OrderViewSet_create s user d' today"
    by (simp add: OrderViewSet_create_eq)
  moreover have "get_serializer_class s ''POST'' user = [''delivery_crew'', ''status'']"
    by (simp add: get_serializer_class_def)
  moreover have "''delivery_crew'' \<in> set OrderSerializer_fields" "''status'' \<in> set OrderSerializer_fields"
    by (simp_all add: OrderSerializer_fields_def)
  moreover have
    "''delivery_crew'' \<notin> set (get_fields OrderSerializer_fields (get_serializer_class s ''POST'' user))"
    "''status'' \<notin> set (get_fields OrderSerializer_fields (get_serializer_class s ''POST'' user))"
    by (simp_all add: post_fields)
  ultimately show ?thesis by blast
qed

theorem order_post_hides_delivery_crew_and_status_witness:
  "OrderViewSet_create db1 1 \<lparr>od_delivery_crew = Some (Some 2), od_status = Some True\<rparr> 7
     = Response 201 db1_ordered
   \<and> OrderViewSet_create db1 1 \<lparr>od_delivery_crew = None, od_status = None\<rparr> 7
     = Response 201 db1_ordered
   \<and> (\<exists>ord. orders db1_ordered = orders db1 @ [ord]
            \<and> order_delivery_crew ord = None \<and> order_status ord = False)"
  using order_post_hides_delivery_crew_and_status
          [of db1 1 "\<lparr>od_delivery_crew = Some (Some 2), od_status = Some True\<rparr>" 7
              "\<lparr>od_delivery_crew = None, od_status = None\<rparr>" db1_ordered]
        order_db1 [of "\<lparr>od_delivery_crew = Some (Some 2), od_status = Some True\<rparr>"]
  by auto

lemma order_items_loop_succeeds:
  assumes "\<forall>i \<in> set items. get_menu_item s (ci_menu_item i) \<noteq> None"
      and "distinct (map ci_menu_item items)"
      and "\<forall>n \<in> set (order_items s). oi_order n = ord \<longrightarrow> oi_menu_item n \<notin> set (map ci_menu_item items)"
  shows "\<exists>s'. order_items_loop s ord items = Inr s'"
  using assms
proof (induction items arbitrary: s)
  case Nil
  then show ?case by simp
next
  case (Cons item items)
  from Cons.prems(1) obtain m where m: "get_menu_item s (ci_menu_item item) = Some m"
    by auto
  from Cons.prems(3) have free: "\<not> (\<exists>n \<in> set (order_items s).
      oi_order n = ord \<and> oi_menu_item n = ci_menu_item item)"
    by auto
  define s1 where "s1 = s\<lparr>order_items := order_items s @
                  [\<lparr>oi_id = fresh_pk (map oi_id (order_items s)), oi_order = ord,
                    oi_menu_item = ci_menu_item item, oi_quantity = ci_quantity item,
                    oi_unit_price = mi_price m, oi_price = mi_price m * ci_quantity item\<rparr>]\<rparr>"
  from free have c: "OrderItem_create s ord (ci_menu_item item) (ci_quantity item) (mi_price m)
           (mi_price m * ci_quantity item) = Inr s1"
    by (simp add: OrderItem_create_def s1_def)
  have 1: "\<forall>i \<in> set items. get_menu_item s1 (ci_menu_item i) \<noteq> None"
    using Cons.prems(1) by (simp add: s1_def)
  have 2: "distinct (map ci_menu_item items)"
    using Cons.prems(2) by simp
  have 3: "\<forall>n \<in> set (order_items s1). oi_order n = ord \<longrightarrow> oi_menu_item n \<notin> set (map ci_menu_item items)"
    using Cons.prems(2,3) by (auto simp: s1_def)
  from Cons.IH [OF 1 2 3] obtain s' where "order_items_loop s1 ord items = Inr s'"
    by blast
  with m c show ?case by simp
qed

text \<open>Under the constraints of the schema, an order for a user with a non-empty cart is
  created.\<close>

lemma order_creation_succeeds:
  assumes "user_cart_items s user \<noteq> []"
      and "user_cart s user \<noteq> None"
      and "\<forall>i \<in> set (user_cart_items s user). get_menu_item s (ci_menu_item i) \<noteq> None"
      and "distinct (map ci_menu_item (user_cart_items s user))"
      and "\<forall>n \<in> set (order_items s). oi_order n \<in> set (map order_id (orders s))"
  shows "\<exists>s'. OrderViewSet_create s user d today = Response 201 s'"
proof -
  define ord where "ord = fst (Order_create s user None None today)"
  define s1 where "s1 = s\<lparr>orders := orders s @ [ord]\<rparr>"
  have o1: "Order_create s user None None today = (ord, s1)"
    by (simp add: ord_def s1_def Order_create_def Let_def)
  have "order_id ord \<notin> set (map order_id (orders s))"
    unfolding ord_def Order_create_fields by (rule fresh_pk_notin)
  with assms(5) have "\<forall>n \<in> set (order_items s). oi_order n \<noteq> order_id ord"
    by metis
  then have none: "\<forall>n \<in> set (order_items s1). oi_order n \<noteq> order_id ord"
    by (simp add: s1_def)
  have "\<exists>s2. order_items_loop s1 (order_id ord) (user_cart_items s1 user) = Inr s2"
  proof (rule order_items_loop_succeeds)
    show "\<forall>i \<in> set (user_cart_items s1 user). get_menu_item s1 (ci_menu_item i) \<noteq> None"
      using assms(3) by (simp add: s1_def)
    show "distinct (map ci_menu_item (user_cart_items s1 user))"
      using assms(4) by (simp add: s1_def)
    show "\<forall>n \<in> set (order_items s1). oi_order n = order_id ord \<longrightarrow>
            oi_menu_item n \<notin> set (map ci_menu_item (user_cart_items s1 user))"
      using none by simp
  qed
  then obtain s2 where loop: "order_items_loop s1 (order_id ord) (user_cart_items s1 user) = Inr s2"
    by blast
  from order_items_loop_result [OF loop] obtain news where
    "s2 = s1\<lparr>order_items := order_items s1 @ news\<rparr>" by blast
  with assms(2) obtain c where "user_cart s2 user = Some c"
    by (auto simp: s1_def)
  with loop o1 assms(1) show ?thesis
    by (simp add: OrderViewSet_create_eq OrderSerializer_create_def)
qed

subsection \<open>Cart items\<close>

text \<open>
  What the validation of the cart-item serializer can raise, and what it has checked
  when it succeeds.
\<close>

lemma quantity_field_no_exn:
  "run_field name required quantity_min_value v \<noteq> Inl e"
  by (auto simp: run_field_def quantity_min_value_def split: option.splits)

lemma menu_item_id_field_no_exn:
  "run_field name required (validate_menu_item_id s) v \<noteq> Inl e"
  by (auto simp: run_field_def validate_menu_item_id_def split: option.splits)

text \<open>The serializer's validation raises nothing but validation errors.\<close>

lemma CartItemSerializer_is_valid_error:
  "CartItemSerializer_is_valid s instance partial user d = Inl e \<Longrightarrow> \<exists>x. e = ValidationError x"
  by (auto simp: CartItemSerializer_is_valid_def CartItemSerializer_to_internal_value_def
        UniqueTogetherValidator_def Let_def quantity_field_no_exn menu_item_id_field_no_exn
      split: sum.splits prod.splits if_splits option.splits)

lemma CartItemSerializer_is_valid_attrs:
  assumes "CartItemSerializer_is_valid s instance partial user d = Inr a"
  shows "ca_user a = (if partial then None else Some user)"
    and "ca_menu_item_id a = cd_menu_item_id d"
    and "ca_quantity a = cd_quantity d"
    and "\<not> partial \<Longrightarrow> cd_menu_item_id d \<noteq> None \<and> cd_quantity d \<noteq> None"
    and "cd_quantity d = Some q \<Longrightarrow> 1 \<le> q"
    and "cd_menu_item_id d = Some m \<Longrightarrow> \<exists>x \<in> set (menu_items s). mi_id x = m"
  using assms
  by (auto simp: CartItemSerializer_is_valid_def CartItemSerializer_to_internal_value_def
        UniqueTogetherValidator_def Let_def run_field_def quantity_min_value_def
        validate_menu_item_id_def
      split: sum.splits prod.splits if_splits option.splits)

lemma CartItemSerializer_is_valid_unique:
  assumes "CartItemSerializer_is_valid s None False user d = Inr a"
  shows "\<exists>m. cd_menu_item_id d = Some m \<and>
             \<not> (\<exists>i \<in> set (cart_items s). ci_user i = user \<and> ci_menu_item i = m)"
  using assms
  by (auto simp: CartItemSerializer_is_valid_def CartItemSerializer_to_internal_value_def
        UniqueTogetherValidator_def Let_def run_field_def quantity_min_value_def
        validate_menu_item_id_def
      split: sum.splits prod.splits if_splits option.splits)

text \<open>
  C4: when a cart item of the user for a menu item exists, a request of that user to
  create a cart item for the same menu item fails validation and is answered with 400;
  the database, and so the existing cart item, stays as it was. Where the other fields
  of the body are valid, the error is that of the uniqueness validator.
\<close>

theorem duplicate_cart_item_rejected:
  assumes "i \<in> set (cart_items s)" and "ci_user i = user"
      and "cd_menu_item_id d = Some (ci_menu_item i)"
  shows "(\<exists>e. CartItemSerializer_is_valid s None False user d = Inl (ValidationError e))
       \<and> CartItemViewSet_create s user d = Response 400 s
       \<and> ((\<exists>m \<in> set (menu_items s). mi_id m = ci_menu_item i) \<and> (\<exists>q. cd_quantity d = Some q \<and> 1 \<le> q)
            \<longrightarrow> CartItemSerializer_is_valid s None False user d = Inl (ValidationError (Fields
                    [(''non_field_errors'', ''The fields user, menu_item_id must make a unique set.'')])))"
proof -
  have err: "\<exists>e. CartItemSerializer_is_valid s None False user d = Inl (ValidationError e)"
  proof (cases "CartItemSerializer_is_valid s None False user d")
    case (Inl e)
    then show ?thesis by (auto dest: CartItemSerializer_is_valid_error)
  next
    case (Inr a)
    from CartItemSerializer_is_valid_unique [OF Inr] assms show ?thesis by auto
  qed
  then have "CartItemViewSet_create s user d = Response 400 s"
    by (auto simp: CartItemViewSet_create_def)
  moreover have "(\<exists>m \<in> set (menu_items s). mi_id m = ci_menu_item i) \<and> (\<exists>q. cd_quantity d = Some q \<and> 1 \<le> q)
            \<longrightarrow> CartItemSerializer_is_valid s None False user d = Inl (ValidationError (Fields
                    [(''non_field_errors'', ''The fields user, menu_item_id must make a unique set.'')]))"
    using assms
    by (auto simp: CartItemSerializer_is_valid_def CartItemSerializer_to_internal_value_def
        UniqueTogetherValidator_def Let_def run_field_def quantity_min_value_def
        validate_menu_item_id_def)
  ultimately show ?thesis using err by blast
qed

theorem duplicate_cart_item_rejected_witness:
  "\<lparr>ci_id = 2, ci_user = 1, ci_cart = 1, ci_menu_item = 2, ci_quantity = 3\<rparr> \<in> set (cart_items db1)
   \<and> CartItemViewSet_create db1 1 \<lparr>cd_menu_item_id = Some 2, cd_quantity = Some 5\<rparr> = Response 400 db1
   \<and> CartItemSerializer_is_valid db1 None False 1 \<lparr>cd_menu_item_id = Some 2, cd_quantity = Some 5\<rparr>
       = Inl (ValidationError (Fields
           [(''non_field_errors'', ''The fields user, menu_item_id must make a unique set.'')]))"
proof -
  have h: "\<lparr>ci_id = 2, ci_user = 1, ci_cart = 1, ci_menu_item = 2, ci_quantity = 3\<rparr> \<in> set (cart_items db1)"
    by (simp add: db1_def db0_def)
  have m: "\<exists>m \<in> set (menu_items db1). mi_id m = 2"
    by (simp add: db1_def db0_def)
  from duplicate_cart_item_rejected [OF h, of 1 "\<lparr>cd_menu_item_id = Some 2, cd_quantity = Some 5\<rparr>"] h m
  show ?thesis by simp
qed

lemma find_snoc:
  "find P (xs @ [y]) = (case find P xs of None \<Rightarrow> (if P y then Some y else None) | Some x \<Rightarrow> Some x)"
  by (induction xs) simp_all

lemma CartItemSerializer_create_result:
  assumes "CartItemSerializer_create s a = Inr (i, s')" and "ca_user a = Some user"
  shows "\<exists>c. user_cart s' user = Some c \<and> cart_user c = user
           \<and> ci_cart i = cart_id c \<and> ci_user i = user
           \<and> ca_menu_item_id a = Some (ci_menu_item i) \<and> ca_quantity a = Some (ci_quantity i)
           \<and> cart_items s' = cart_items s @ [i]
           \<and> (case user_cart s user of
                 Some c0 \<Rightarrow> c = c0 \<and> carts s' = carts s
               | None \<Rightarrow> carts s' = carts s @ [c] \<and> cart_id c \<notin> set (map cart_id (carts s)))"
proof (cases "user_cart s user")
  case (Some c0)
  with assms obtain m q where
    i: "CartItem_create s (cart_id c0) user m q = Inr (i, s')" and
    a: "ca_menu_item_id a = Some m" "ca_quantity a = Some q"
    by (auto simp: CartItemSerializer_create_def split: option.splits)
  from i have r: "ci_cart i = cart_id c0" "ci_user i = user" "ci_menu_item i = m" "ci_quantity i = q"
      "cart_items s' = cart_items s @ [i]" "carts s' = carts s"
    by (auto simp: CartItem_create_def Let_def split: if_splits)
  have "user_cart s' user = Some c0"
    using Some by (simp add: user_cart_def r(6))
  moreover from Some have "cart_user c0 = user" by (simp add: user_cart_Some)
  ultimately show ?thesis using r a Some by simp
next
  case None
  define c where "c = \<lparr>cart_id = fresh_pk (map cart_id (carts s)), cart_user = user\<rparr>"
  from None have no: "\<not> (\<exists>x \<in> set (carts s). cart_user x = user)"
    by (simp add: user_cart_None)
  then have cc: "Cart_create s user = Inr (c, s\<lparr>carts := carts s @ [c]\<rparr>)"
    by (simp add: Cart_create_def c_def Let_def)
  from assms None cc obtain m q where
    i: "CartItem_create (s\<lparr>carts := carts s @ [c]\<rparr>) (cart_id c) user m q = Inr (i, s')" and
    a: "ca_menu_item_id a = Some m" "ca_quantity a = Some q"
    by (auto simp: CartItemSerializer_create_def split: option.splits)
  from i have r: "ci_cart i = cart_id c" "ci_user i = user" "ci_menu_item i = m" "ci_quantity i = q"
      "cart_items s' = cart_items s @ [i]" "carts s' = carts s @ [c]"
    by (auto simp: CartItem_create_def Let_def split: if_splits)
  have "user_cart s' user = Some c"
    using None by (simp add: user_cart_def r(6) find_snoc c_def)
  moreover have "cart_id c \<notin> set (map cart_id (carts s))"
    unfolding c_def using fresh_pk_notin [of "map cart_id (carts s)"] by simp
  moreover have "cart_user c = user" by (simp add: c_def)
  ultimately show ?thesis using r a None by simp
qed

lemma CartItemSerializer_create_owned:
  assumes "CartItemSerializer_create s a = Inr (i, s')" and "ca_user a = Some user"
      and "cart_items_owned s"
  shows "cart_items_owned s'"
proof -
  from CartItemSerializer_create_result [OF assms(1,2)] obtain c where
    c: "user_cart s' user = Some c" "ci_cart i = cart_id c" "ci_user i = user"
       "cart_items s' = cart_items s @ [i]"
       "case user_cart s user of
                 Some c0 \<Rightarrow> c = c0 \<and> carts s' = carts s
               | None \<Rightarrow> carts s' = carts s @ [c] \<and> cart_id c \<notin> set (map cart_id (carts s))"
    by blast
  from c(1) have cin: "c \<in> set (carts s')" "cart_user c = user"
    by (simp_all add: user_cart_Some)
  from c(5) have sub: "set (carts s) \<subseteq> set (carts s')"
    by (auto split: option.splits)
  from c(5) assms(3) have "distinct (map cart_id (carts s'))"
    by (auto simp: cart_items_owned_def split: option.splits)
  moreover have "\<forall>j \<in> set (cart_items s'). \<exists>x \<in> set (carts s'). cart_id x = ci_cart j \<and> cart_user x = ci_user j"
  proof
    fix j assume "j \<in> set (cart_items s')"
    then consider "j \<in> set (cart_items s)" | "j = i" by (auto simp: c(4))
    then show "\<exists>x \<in> set (carts s'). cart_id x = ci_cart j \<and> cart_user x = ci_user j"
    proof cases
      case 1
      with assms(3) obtain x where "x \<in> set (carts s)" "cart_id x = ci_cart j" "cart_user x = ci_user j"
        by (auto simp: cart_items_owned_def)
      with sub show ?thesis by blast
    next
      case 2
      with cin c(2,3) show ?thesis by auto
    qed
  qed
  ultimately show ?thesis by (simp add: cart_items_owned_def)
qed

text \<open>
  C8: a successful creation of a cart item adds one cart item, of the requesting user
  and in that user's cart; where the user had no cart, the cart is a new row made for the
  user, and otherwise it is the cart the user had. So if, before, every cart item's cart
  was a cart of the cart item's user, the same holds after.
\<close>

theorem cart_item_creation_attaches_users_cart:
  assumes "CartItemViewSet_create s user d = Response 201 s'"
  shows "\<exists>i c. cart_items s' = cart_items s @ [i] \<and> ci_user i = user
             \<and> user_cart s' user = Some c \<and> ci_cart i = cart_id c \<and> cart_user c = user
             \<and> (case user_cart s user of
                   Some c0 \<Rightarrow> c = c0 \<and> carts s' = carts s
                 | None \<Rightarrow> carts s' = carts s @ [c] \<and> cart_id c \<notin> set (map cart_id (carts s)))
             \<and> (cart_items_owned s \<longrightarrow> cart_items_owned s')"
proof -
  from assms obtain a i where
    v: "CartItemSerializer_is_valid s None False user d = Inr a" and
    cr: "CartItemSerializer_create s a = Inr (i, s')"
    by (auto simp: CartItemViewSet_create_def split: sum.splits exn.splits)
  from CartItemSerializer_is_valid_attrs(1) [OF v] have u: "ca_user a = Some user" by simp
  from CartItemSerializer_create_result [OF cr u] CartItemSerializer_create_owned [OF cr u]
  show ?thesis by blast
qed

lemma Cart_delete_owned:
  assumes "cart_items_owned s"
  shows "cart_items_owned (Cart_delete s c)"
proof -
  from assms have "distinct (map cart_id (carts (Cart_delete s c)))"
    by (simp add: cart_items_owned_def Cart_delete_def distinct_map_filter)
  moreover have "\<forall>i \<in> set (cart_items (Cart_delete s c)).
      \<exists>x \<in> set (carts (Cart_delete s c)). cart_id x = ci_cart i \<and> cart_user x = ci_user i"
  proof
    fix i assume "i \<in> set (cart_items (Cart_delete s c))"
    then have i: "i \<in> set (cart_items s)" "ci_cart i \<noteq> cart_id c"
      by (simp_all add: Cart_delete_def)
    with assms obtain x where "x \<in> set (carts s)" "cart_id x = ci_cart i" "cart_user x = ci_user i"
      by (auto simp: cart_items_owned_def)
    with i(2) show "\<exists>x \<in> set (carts (Cart_delete s c)). cart_id x = ci_cart i \<and> cart_user x = ci_user i"
      by (auto simp: Cart_delete_def)
  qed
  ultimately show ?thesis by (simp add: cart_items_owned_def)
qed

lemma CartItemViewSet_update_result:
  assumes "CartItemViewSet_update s partial user k d = Response 200 s'"
  shows "\<exists>inst i. inst \<in> set (cart_items s) \<and> ci_id inst = k \<and> ci_user inst = user
           \<and> ci_id i = k \<and> ci_user i = user \<and> ci_cart i = ci_cart inst
           \<and> ci_menu_item i = (case cd_menu_item_id d of Some m \<Rightarrow> m | None \<Rightarrow> ci_menu_item inst)
           \<and> ci_quantity i = (case cd_quantity d of Some q \<Rightarrow> q | None \<Rightarrow> ci_quantity inst)
           \<and> (\<forall>q. cd_quantity d = Some q \<longrightarrow> 1 \<le> q)
           \<and> s' = s\<lparr>cart_items := map (\<lambda>j. if ci_id j = k then i else j) (cart_items s)\<rparr>"
proof -
  from assms obtain inst where
    f: "find (\<lambda>i. ci_id i = k) (CartItemViewSet_get_queryset s user) = Some inst"
    by (auto simp: CartItemViewSet_update_def split: option.splits)
  then have inst: "inst \<in> set (cart_items s)" "ci_id inst = k" "ci_user inst = user"
    by (auto simp: find_Some_iff CartItemViewSet_get_queryset_def dest: nth_mem)
  from assms f obtain a i where
    v: "CartItemSerializer_is_valid s (Some inst) partial user d = Inr a" and
    u: "CartItemSerializer_update s inst a = Inr (i, s')"
    by (auto simp: CartItemViewSet_update_def split: sum.splits exn.splits)
  note at = CartItemSerializer_is_valid_attrs [OF v]
  from u have i: "i = inst\<lparr>
            ci_user := (case ca_user a of Some u \<Rightarrow> u | None \<Rightarrow> ci_user inst),
            ci_menu_item := (case ca_menu_item_id a of Some m \<Rightarrow> m | None \<Rightarrow> ci_menu_item inst),
            ci_quantity := (case ca_quantity a of Some q \<Rightarrow> q | None \<Rightarrow> ci_quantity inst)\<rparr>"
    and s': "s' = s\<lparr>cart_items := map (\<lambda>j. if ci_id j = ci_id i then i else j) (cart_items s)\<rparr>"
    by (auto simp: CartItemSerializer_update_def CartItem_save_def Let_def split: if_splits)
  have "ci_id i = k" "ci_user i = user" "ci_cart i = ci_cart inst"
    "ci_menu_item i = (case cd_menu_item_id d of Some m \<Rightarrow> m | None \<Rightarrow> ci_menu_item inst)"
    "ci_quantity i = (case cd_quantity d of Some q \<Rightarrow> q | None \<Rightarrow> ci_quantity inst)"
    using inst by (simp_all add: i at(1,2,3))
  moreover have "\<forall>q. cd_quantity d = Some q \<longrightarrow> 1 \<le> q"
    using at(5) by blast
  ultimately show ?thesis using inst s' by blast
qed

lemma CartItemViewSet_update_owned:
  assumes "CartItemViewSet_update s partial user k d = Response 200 s'" and "cart_items_owned s"
  shows "cart_items_owned s'"
proof -
  from CartItemViewSet_update_result [OF assms(1)] obtain inst i where
    r: "inst \<in> set (cart_items s)" "ci_user inst = user" "ci_user i = user" "ci_cart i = ci_cart inst"
       "s' = s\<lparr>cart_items := map (\<lambda>j. if ci_id j = k then i else j) (cart_items s)\<rparr>"
    by blast
  from assms(2) r(1) obtain x where x: "x \<in> set (carts s)" "cart_id x = ci_cart inst" "cart_user x = ci_user inst"
    by (auto simp: cart_items_owned_def)
  have "\<forall>j \<in> set (cart_items s'). \<exists>c \<in> set (carts s'). cart_id c = ci_cart j \<and> cart_user c = ci_user j"
  proof
    fix j assume "j \<in> set (cart_items s')"
    then consider "j \<in> set (cart_items s)" | "j = i" by (auto simp: r(5))
    then show "\<exists>c \<in> set (carts s'). cart_id c = ci_cart j \<and> cart_user c = ci_user j"
    proof cases
      case 1
      with assms(2) show ?thesis by (auto simp: cart_items_owned_def r(5))
    next
      case 2
      with x r(2,3,4) show ?thesis by (auto simp: r(5))
    qed
  qed
  moreover from assms(2) have "distinct (map cart_id (carts s'))"
    by (simp add: cart_items_owned_def r(5))
  ultimately show ?thesis by (simp add: cart_items_owned_def)
qed

lemma quantity_rejected:
  assumes "cd_quantity d = Some q" and "q < 1"
  shows "\<exists>e. CartItemSerializer_is_valid s instance partial user d = Inl (ValidationError e)"
proof (cases "CartItemSerializer_is_valid s instance partial user d")
  case (Inl e)
  then show ?thesis by (auto dest: CartItemSerializer_is_valid_error)
next
  case (Inr a)
  from CartItemSerializer_is_valid_attrs(5) [OF Inr assms(1)] assms(2) show ?thesis by simp
qed

text \<open>
  C6: a body whose quantity is below 1 fails the validation of the cart-item
  serializer, for a creation and for a full or partial update, and nothing is written; a
  created cart item has the quantity of the body, which is at least 1; an update that
  gives a quantity leaves the item with that quantity, at least 1; and when every cart
  item has a quantity of at least 1 before a creation or an update, every cart item has
  one after it.
\<close>

theorem cart_item_quantity_at_least_one:
  "(cd_quantity d = Some q \<and> q < 1 \<longrightarrow>
      (\<exists>e. CartItemSerializer_is_valid s instance partial user d = Inl (ValidationError e))
      \<and> CartItemViewSet_create s user d = Response 400 s
      \<and> (CartItemViewSet_update s partial user k d = Response 400 s
           \<or> CartItemViewSet_update s partial user k d = Response 404 s))
   \<and> (CartItemViewSet_create s user d = Response 201 s' \<longrightarrow>
        (\<exists>i. cart_items s' = cart_items s @ [i] \<and> cd_quantity d = Some (ci_quantity i)
             \<and> 1 \<le> ci_quantity i)
        \<and> (quantities_positive s \<longrightarrow> quantities_positive s'))
   \<and> (CartItemViewSet_update s partial user k d = Response 200 s' \<longrightarrow>
        (\<forall>q. cd_quantity d = Some q \<longrightarrow>
               1 \<le> q \<and> (\<exists>i \<in> set (cart_items s'). ci_id i = k \<and> ci_quantity i = q))
        \<and> (quantities_positive s \<longrightarrow> quantities_positive s'))"
proof -
  have rej: "cd_quantity d = Some q \<and> q < 1 \<longrightarrow>
      (\<exists>e. CartItemSerializer_is_valid s instance partial user d = Inl (ValidationError e))
      \<and> CartItemViewSet_create s user d = Response 400 s
      \<and> (CartItemViewSet_update s partial user k d = Response 400 s
           \<or> CartItemViewSet_update s partial user k d = Response 404 s)"
  proof
    assume a: "cd_quantity d = Some q \<and> q < 1"
    then have 1: "\<exists>e. CartItemSerializer_is_valid s instance partial user d = Inl (ValidationError e)"
      by (auto intro: quantity_rejected)
    from a obtain e where "CartItemSerializer_is_valid s None False user d = Inl (ValidationError e)"
      using quantity_rejected by blast
    then have 2: "CartItemViewSet_create s user d = Response 400 s"
      by (simp add: CartItemViewSet_create_def)
    have 3: "CartItemViewSet_update s partial user k d = Response 400 s
           \<or> CartItemViewSet_update s partial user k d = Response 404 s"
    proof (cases "find (\<lambda>i. ci_id i = k) (CartItemViewSet_get_queryset s user)")
      case None
      then show ?thesis by (simp add: CartItemViewSet_update_def)
    next
      case (Some inst)
      from a obtain e where "CartItemSerializer_is_valid s (Some inst) partial user d = Inl (ValidationError e)"
        using quantity_rejected by blast
      with Some show ?thesis by (simp add: CartItemViewSet_update_def)
    qed
    from 1 2 3 show "(\<exists>e. CartItemSerializer_is_valid s instance partial user d = Inl (ValidationError e))
      \<and> CartItemViewSet_create s user d = Response 400 s
      \<and> (CartItemViewSet_update s partial user k d = Response 400 s
           \<or> CartItemViewSet_update s partial user k d = Response 404 s)"
      by blast
  qed
  have cre: "CartItemViewSet_create s user d = Response 201 s' \<longrightarrow>
        (\<exists>i. cart_items s' = cart_items s @ [i] \<and> cd_quantity d = Some (ci_quantity i)
             \<and> 1 \<le> ci_quantity i)
        \<and> (quantities_positive s \<longrightarrow> quantities_positive s')"
  proof
    assume "CartItemViewSet_create s user d = Response 201 s'"
    then obtain a i where
      v: "CartItemSerializer_is_valid s None False user d = Inr a" and
      cr: "CartItemSerializer_create s a = Inr (i, s')"
      by (auto simp: CartItemViewSet_create_def split: sum.splits exn.splits)
    note at = CartItemSerializer_is_valid_attrs [OF v]
    from at(1) have u: "ca_user a = Some user" by simp
    from CartItemSerializer_create_result [OF cr u] have
      i: "cart_items s' = cart_items s @ [i]" "ca_quantity a = Some (ci_quantity i)"
      by auto
    from i(2) at(3) have q: "cd_quantity d = Some (ci_quantity i)" by simp
    from at(5) [OF q] have "1 \<le> ci_quantity i" .
    with i(1) q show "(\<exists>i. cart_items s' = cart_items s @ [i] \<and> cd_quantity d = Some (ci_quantity i)
             \<and> 1 \<le> ci_quantity i)
        \<and> (quantities_positive s \<longrightarrow> quantities_positive s')"
      by (auto simp: quantities_positive_def)
  qed
  have upd: "CartItemViewSet_update s partial user k d = Response 200 s' \<longrightarrow>
        (\<forall>q. cd_quantity d = Some q \<longrightarrow>
               1 \<le> q \<and> (\<exists>i \<in> set (cart_items s'). ci_id i = k \<and> ci_quantity i = q))
        \<and> (quantities_positive s \<longrightarrow> quantities_positive s')"
  proof
    assume "CartItemViewSet_update s partial user k d = Response 200 s'"
    from CartItemViewSet_update_result [OF this] obtain inst i where
      r: "inst \<in> set (cart_items s)" "ci_id inst = k" "ci_id i = k"
         "ci_quantity i = (case cd_quantity d of Some q \<Rightarrow> q | None \<Rightarrow> ci_quantity inst)"
         "\<forall>q. cd_quantity d = Some q \<longrightarrow> 1 \<le> q"
         "s' = s\<lparr>cart_items := map (\<lambda>j. if ci_id j = k then i else j) (cart_items s)\<rparr>"
      by blast
    from r(1,2) have iin: "i \<in> set (cart_items s')"
      by (force simp: r(6))
    have a: "\<forall>q. cd_quantity d = Some q \<longrightarrow>
               1 \<le> q \<and> (\<exists>i \<in> set (cart_items s'). ci_id i = k \<and> ci_quantity i = q)"
      using r(3,4,5) iin by auto
    have b: "quantities_positive s \<longrightarrow> quantities_positive s'"
    proof
      assume p: "quantities_positive s"
      with r(1) have "1 \<le> ci_quantity inst" by (simp add: quantities_positive_def)
      with r(4,5) have "1 \<le> ci_quantity i" by (cases "cd_quantity d") auto
      with p show "quantities_positive s'"
        by (auto simp: quantities_positive_def r(6))
    qed
    from a b show "(\<forall>q. cd_quantity d = Some q \<longrightarrow>
               1 \<le> q \<and> (\<exists>i \<in> set (cart_items s'). ci_id i = k \<and> ci_quantity i = q))
        \<and> (quantities_positive s \<longrightarrow> quantities_positive s')" ..
  qed
  from rej cre upd show ?thesis by blast
qed

lemmas cart_item_view_defs =
  CartItemViewSet_create_def CartItemViewSet_update_def CartItemViewSet_get_queryset_def
  CartItemSerializer_is_valid_def CartItemSerializer_to_internal_value_def
  UniqueTogetherValidator_def run_field_def quantity_min_value_def validate_menu_item_id_def
  CartItemSerializer_create_def CartItemSerializer_update_def Cart_create_def CartItem_create_def
  CartItem_save_def user_cart_def fresh_pk_def Let_def

lemma create_db0:
  "CartItemViewSet_create db0 1 \<lparr>cd_menu_item_id = Some 1, cd_quantity = Some 2\<rparr> = Response 201 db1a"
  by (simp add: cart_item_view_defs db0_def db1a_def)

lemma create_db1a:
  "CartItemViewSet_create db1a 1 \<lparr>cd_menu_item_id = Some 2, cd_quantity = Some 3\<rparr> = Response 201 db1"
  by (simp add: cart_item_view_defs db0_def db1a_def db1_def)

lemma update_db1:
  "CartItemViewSet_update db1 True 1 2 \<lparr>cd_menu_item_id = None, cd_quantity = Some 9\<rparr> = Response 200 db1u"
  by (simp add: cart_item_view_defs db0_def db1_def db1u_def)

theorem cart_item_creation_attaches_users_cart_witness:
  "user_cart db0 1 = None
   \<and> CartItemViewSet_create db0 1 \<lparr>cd_menu_item_id = Some 1, cd_quantity = Some 2\<rparr> = Response 201 db1a
   \<and> cart_items_owned db0 \<and> cart_items_owned db1a
   \<and> (\<exists>i c. cart_items db1a = [i] \<and> carts db1a = [c] \<and> user_cart db1a 1 = Some c
            \<and> ci_cart i = cart_id c \<and> ci_user i = 1 \<and> cart_user c = 1)"
proof -
  have n: "user_cart db0 1 = None" by (simp add: user_cart_def db0_def)
  have o: "cart_items_owned db0" by (simp add: cart_items_owned_def db0_def)
  have e: "cart_items db0 = []" "carts db0 = []" by (simp_all add: db0_def)
  from cart_item_creation_attaches_users_cart [OF create_db0] n o e create_db0
  show ?thesis by auto
qed

theorem cart_item_quantity_at_least_one_witness:
  "CartItemViewSet_create db1 1 \<lparr>cd_menu_item_id = Some 1, cd_quantity = Some 0\<rparr> = Response 400 db1
   \<and> CartItemViewSet_update db1 True 1 2 \<lparr>cd_menu_item_id = Some 1, cd_quantity = Some 0\<rparr> = Response 400 db1
   \<and> CartItemViewSet_create db1a 1 \<lparr>cd_menu_item_id = Some 2, cd_quantity = Some 3\<rparr> = Response 201 db1
   \<and> CartItemViewSet_update db1 True 1 2 \<lparr>cd_menu_item_id = None, cd_quantity = Some 9\<rparr> = Response 200 db1u
   \<and> quantities_positive db1a \<and> quantities_positive db1 \<and> quantities_positive db1u"
proof -
  have p: "quantities_positive db1a"
    by (simp add: quantities_positive_def db1a_def db0_def)
  have f: "CartItemViewSet_update db1 True 1 2 \<lparr>cd_menu_item_id = Some 1, cd_quantity = Some 0\<rparr>
             \<noteq> Response 404 db1"
    by (simp add: CartItemViewSet_update_def CartItemViewSet_get_queryset_def db1_def db0_def
        split: sum.splits exn.splits prod.splits)
  from cart_item_quantity_at_least_one
         [of "\<lparr>cd_menu_item_id = Some 1, cd_quantity = Some 0\<rparr>" 0 db1 None True 1 2 db1]
  have 1: "CartItemViewSet_create db1 1 \<lparr>cd_menu_item_id = Some 1, cd_quantity = Some 0\<rparr> = Response 400 db1"
    and 2: "CartItemViewSet_update db1 True 1 2 \<lparr>cd_menu_item_id = Some 1, cd_quantity = Some 0\<rparr> = Response 400 db1"
    using f by simp_all
  from cart_item_quantity_at_least_one
         [of "\<lparr>cd_menu_item_id = Some 2, cd_quantity = Some 3\<rparr>" 3 db1a None False 1 0 db1]
       create_db1a p
  have 3: "quantities_positive db1" by simp
  from cart_item_quantity_at_least_one
         [of "\<lparr>cd_menu_item_id = None, cd_quantity = Some 9\<rparr>" 9 db1 None True 1 2 db1u]
       update_db1 3
  have 4: "quantities_positive db1u" by simp
  from 1 2 3 4 p create_db1a update_db1 show ?thesis by simp
qed

subsection \<open>Assigning a delivery crew\<close>

text \<open>
  The serializer of a PUT or PATCH request by a user outside the delivery crew has all
  the fields; what it makes of a body that names a delivery crew.
\<close>

lemma update_fields:
  "method \<in> set [''PUT'', ''PATCH''] \<Longrightarrow> \<not> in_group s user ''Delivery Crew'' \<Longrightarrow>
   get_fields OrderSerializer_fields (get_serializer_class s method user) = OrderSerializer_fields"
  by (auto simp: get_serializer_class_def)

lemma update_internal_value_crew:
  assumes "''delivery_crew'' \<in> set flds" and "od_delivery_crew d = Some (Some u)"
  shows "OrderSerializer_to_internal_value s flds False user d =
     (if \<not> (\<exists>x \<in> set (users s). user_id x = u)
      then Inl (ValidationError (Fields [(''delivery_crew'', ''Invalid pk - object does not exist.'')]))
      else if \<not> in_group s u ''Delivery Crew''
      then Inl (ValidationError (Fields [(''delivery_crew'', ''Invalid delivery crew ID'')]))
      else Inr \<lparr>oa_user = None, oa_delivery_crew = Some (Some u),
                oa_status = (if ''status'' \<in> set flds then od_status d else None)\<rparr>)"
  using assms
  by (auto simp: OrderSerializer_to_internal_value_def run_field_def delivery_crew_field_def
        validate_delivery_crew_def split: option.splits)

text \<open>
  C5: \<open>validate_delivery_crew\<close> raises the validation error for a user who is not in
  the group named "Delivery Crew", and returns a user who is in it. In an update of an
  order the requester can see, by a requester for whom the field is not hidden, a body
  naming a user outside the group is answered with 400 and nothing is written, and a
  body naming an existing user of the group is answered with 200 and the order saved
  with that delivery crew.
\<close>

theorem delivery_crew_must_be_in_group:
  "(\<not> in_group s u ''Delivery Crew'' \<longrightarrow>
      validate_delivery_crew s (Some u) = Inl (ValidationError (Message ''Invalid delivery crew ID'')))
   \<and> (in_group s u ''Delivery Crew'' \<longrightarrow> validate_delivery_crew s (Some u) = Inr (Some u))
   \<and> (method \<in> set [''PUT'', ''PATCH''] \<and> \<not> in_group s user ''Delivery Crew''
        \<and> find (\<lambda>x. order_id x = k) (OrderViewSet_get_queryset s user) = Some instance
        \<and> od_delivery_crew d = Some (Some u) \<longrightarrow>
        (\<not> in_group s u ''Delivery Crew'' \<longrightarrow> OrderViewSet_update s method user k d = Response 400 s)
        \<and> (in_group s u ''Delivery Crew'' \<and> (\<exists>x \<in> set (users s). user_id x = u) \<longrightarrow>
             OrderViewSet_update s method user k d
               = Response 200 (Order_save s (instance\<lparr>order_delivery_crew := Some u,
                    order_status := (case od_status d of Some b \<Rightarrow> b | None \<Rightarrow> order_status instance)\<rparr>))))"
proof -
  have v: "(\<not> in_group s u ''Delivery Crew'' \<longrightarrow>
      validate_delivery_crew s (Some u) = Inl (ValidationError (Message ''Invalid delivery crew ID'')))
   \<and> (in_group s u ''Delivery Crew'' \<longrightarrow> validate_delivery_crew s (Some u) = Inr (Some u))"
    by (simp add: validate_delivery_crew_def)
  have "method \<in> set [''PUT'', ''PATCH''] \<and> \<not> in_group s user ''Delivery Crew''
        \<and> find (\<lambda>x. order_id x = k) (OrderViewSet_get_queryset s user) = Some instance
        \<and> od_delivery_crew d = Some (Some u) \<longrightarrow>
        (\<not> in_group s u ''Delivery Crew'' \<longrightarrow> OrderViewSet_update s method user k d = Response 400 s)
        \<and> (in_group s u ''Delivery Crew'' \<and> (\<exists>x \<in> set (users s). user_id x = u) \<longrightarrow>
             OrderViewSet_update s method user k d
               = Response 200 (Order_save s (instance\<lparr>order_delivery_crew := Some u,
                    order_status := (case od_status d of Some b \<Rightarrow> b | None \<Rightarrow> order_status instance)\<rparr>)))"
  proof
    assume a: "method \<in> set [''PUT'', ''PATCH''] \<and> \<not> in_group s user ''Delivery Crew''
        \<and> find (\<lambda>x. order_id x = k) (OrderViewSet_get_queryset s user) = Some instance
        \<and> od_delivery_crew d = Some (Some u)"
    then have f: "get_fields OrderSerializer_fields (get_serializer_class s method user)
                    = OrderSerializer_fields"
      by (simp add: update_fields)
    have m: "''delivery_crew'' \<in> set OrderSerializer_fields" "''status'' \<in> set OrderSerializer_fields"
      by (simp_all add: OrderSerializer_fields_def)
    from a have c: "od_delivery_crew d = Some (Some u)" by simp
    note iv = update_internal_value_crew [OF m(1) c, of s user]
    from a show "(\<not> in_group s u ''Delivery Crew'' \<longrightarrow> OrderViewSet_update s method user k d = Response 400 s)
        \<and> (in_group s u ''Delivery Crew'' \<and> (\<exists>x \<in> set (users s). user_id x = u) \<longrightarrow>
             OrderViewSet_update s method user k d
               = Response 200 (Order_save s (instance\<lparr>order_delivery_crew := Some u,
                    order_status := (case od_status d of Some b \<Rightarrow> b | None \<Rightarrow> order_status instance)\<rparr>)))"
      by (simp add: OrderViewSet_update_def f iv m(2) OrderSerializer_update_def Let_def)
  qed
  with v show ?thesis by blast
qed

lemma db_mgr_groups:
  "in_group db_mgr 2 ''Delivery Crew''" "\<not> in_group db_mgr 1 ''Delivery Crew''"
  "in_group db_mgr 1 ''Manager''"
  by (simp_all add: in_group_def db_mgr_def db2_def db1_def db0_def)

lemma db_mgr_order:
  "find (\<lambda>x. order_id x = 1) (OrderViewSet_get_queryset db_mgr 1)
     = Some \<lparr>order_id = 1, order_user = 2, order_delivery_crew = None, order_status = False,
             order_date = 7\<rparr>"
  by (simp add: OrderViewSet_get_queryset_def db_mgr_groups) (simp add: db_mgr_def db2_def)

theorem delivery_crew_must_be_in_group_witness:
  "\<not> in_group db_mgr 1 ''Delivery Crew'' \<and> in_group db_mgr 2 ''Delivery Crew''
   \<and> validate_delivery_crew db_mgr (Some 1) = Inl (ValidationError (Message ''Invalid delivery crew ID''))
   \<and> validate_delivery_crew db_mgr (Some 2) = Inr (Some 2)
   \<and> OrderViewSet_update db_mgr ''PATCH'' 1 1 \<lparr>od_delivery_crew = Some (Some 1), od_status = None\<rparr>
       = Response 400 db_mgr
   \<and> OrderViewSet_update db_mgr ''PATCH'' 1 1 \<lparr>od_delivery_crew = Some (Some 2), od_status = None\<rparr>
       = Response 200 db_mgr_assigned"
proof -
  have u: "\<exists>x \<in> set (users db_mgr). user_id x = 2"
    by (simp add: db_mgr_def db2_def db1_def db0_def)
  have sv: "Order_save db_mgr \<lparr>order_id = 1, order_user = 2, order_delivery_crew = Some 2,
                                         order_status = False, order_date = 7\<rparr> = db_mgr_assigned"
    by (simp add: Order_save_def db_mgr_assigned_def) (simp add: db_mgr_def db2_def)
  from delivery_crew_must_be_in_group
         [of db_mgr 1 "''PATCH''" 1 1 _ "\<lparr>od_delivery_crew = Some (Some 1), od_status = None\<rparr>"]
       db_mgr_groups db_mgr_order
  have 1: "validate_delivery_crew db_mgr (Some 1) = Inl (ValidationError (Message ''Invalid delivery crew ID''))"
    and 2: "OrderViewSet_update db_mgr ''PATCH'' 1 1 \<lparr>od_delivery_crew = Some (Some 1), od_status = None\<rparr>
       = Response 400 db_mgr"
    by simp_all
  from delivery_crew_must_be_in_group
         [of db_mgr 2 "''PATCH''" 1 1 _ "\<lparr>od_delivery_crew = Some (Some 2), od_status = None\<rparr>"]
       db_mgr_groups db_mgr_order u
  have 3: "validate_delivery_crew db_mgr (Some 2) = Inr (Some 2)"
    and 4: "OrderViewSet_update db_mgr ''PATCH'' 1 1 \<lparr>od_delivery_crew = Some (Some 2), od_status = None\<rparr>
       = Response 200 db_mgr_assigned"
    by (simp_all add: sv)
  from 1 2 3 4 db_mgr_groups show ?thesis by simp
qed

subsection \<open>Group membership\<close>

text \<open>
  The group \<open>initialize_request\<close> resolves is the first whose slugified name is the
  name of the URL; it fails exactly when there is none, with a 404.
\<close>

lemma initialize_request_Inr:
  "initialize_request slugify s name = Inr g \<Longrightarrow>
     \<exists>i < length (groups s). groups s ! i = g \<and> slugify (group_name g) = name
        \<and> (\<forall>j < i. slugify (group_name (groups s ! j)) \<noteq> name)"
  by (auto simp: initialize_request_def find_Some_iff split: option.splits)

lemma initialize_request_Inl:
  "(\<exists>e. initialize_request slugify s name = Inl e)
     = (\<forall>g \<in> set (groups s). slugify (group_name g) \<noteq> name)"
  by (auto simp: initialize_request_def find_None_iff find_Some_iff split: option.splits)

lemma initialize_request_404:
  "initialize_request slugify s name = Inl e \<Longrightarrow> e = Http404 ''Group not found''"
  by (auto simp: initialize_request_def split: option.splits)

text \<open>
  C7: the group of a request to a group-membership endpoint is the first group whose
  slugified name equals the \<open>group_name\<close> of the URL, and there is one whenever some
  group's slugified name matches; when none matches, \<open>initialize_request\<close> raises
  \<open>Http404\<close> and the request, whatever it is, is answered with 404, the database
  unchanged. Adding a user by a username no user has raises \<open>Http404\<close> in
  \<open>create\<close>, and the request, once its group is resolved and the permission class
  lets it through, is answered with 404.
\<close>

theorem group_and_user_lookups_404:
  "(initialize_request slugify s name = Inr g \<longrightarrow>
      (\<exists>i < length (groups s). groups s ! i = g \<and> slugify (group_name g) = name
         \<and> (\<forall>j < i. slugify (group_name (groups s ! j)) \<noteq> name)))
   \<and> ((\<exists>g \<in> set (groups s). slugify (group_name g) = name) \<longrightarrow>
        (\<exists>g. initialize_request slugify s name = Inr g))
   \<and> ((\<forall>g \<in> set (groups s). slugify (group_name g) \<noteq> name) \<longrightarrow>
        initialize_request slugify s name = Inl (Http404 ''Group not found'')
        \<and> GroupUserViewSet_dispatch slugify check_permissions s user name r = Response 404 s)
   \<and> ((\<forall>u \<in> set (users s). username u \<noteq> n) \<longrightarrow>
        GroupUserViewSet_create s g (Some n) = Inl (Http404 ''No User matches the given query.'')
        \<and> (initialize_request slugify s name = Inr g
             \<and> check_permissions s user (AddUser (Some n)) = None \<longrightarrow>
             GroupUserViewSet_dispatch slugify check_permissions s user name (AddUser (Some n))
               = Response 404 s))"
proof -
  have 1: "initialize_request slugify s name = Inr g \<longrightarrow>
      (\<exists>i < length (groups s). groups s ! i = g \<and> slugify (group_name g) = name
         \<and> (\<forall>j < i. slugify (group_name (groups s ! j)) \<noteq> name))"
    by (blast dest: initialize_request_Inr)
  have 2: "(\<exists>g \<in> set (groups s). slugify (group_name g) = name) \<longrightarrow>
        (\<exists>g. initialize_request slugify s name = Inr g)"
    using initialize_request_Inl [of slugify s name]
    by (cases "initialize_request slugify s name") auto
  have 3: "(\<forall>g \<in> set (groups s). slugify (group_name g) \<noteq> name) \<longrightarrow>
        initialize_request slugify s name = Inl (Http404 ''Group not found'')
        \<and> GroupUserViewSet_dispatch slugify check_permissions s user name r = Response 404 s"
  proof
    assume "\<forall>g \<in> set (groups s). slugify (group_name g) \<noteq> name"
    then obtain e where "initialize_request slugify s name = Inl e"
      using initialize_request_Inl [of slugify s name] by blast
    with initialize_request_404 [OF this]
    show "initialize_request slugify s name = Inl (Http404 ''Group not found'')
        \<and> GroupUserViewSet_dispatch slugify check_permissions s user name r = Response 404 s"
      by (simp add: GroupUserViewSet_dispatch_def)
  qed
  have 4: "(\<forall>u \<in> set (users s). username u \<noteq> n) \<longrightarrow>
        GroupUserViewSet_create s g (Some n) = Inl (Http404 ''No User matches the given query.'')
        \<and> (initialize_request slugify s name = Inr g
             \<and> check_permissions s user (AddUser (Some n)) = None \<longrightarrow>
             GroupUserViewSet_dispatch slugify check_permissions s user name (AddUser (Some n))
               = Response 404 s)"
  proof
    assume "\<forall>u \<in> set (users s). username u \<noteq> n"
    then have "find (\<lambda>u. username u = n) (users s) = None"
      by (simp add: find_None_iff)
    then have c: "GroupUserViewSet_create s g (Some n) = Inl (Http404 ''No User matches the given query.'')"
      by (simp add: GroupUserViewSet_create_def)
    then show "GroupUserViewSet_create s g (Some n) = Inl (Http404 ''No User matches the given query.'')
        \<and> (initialize_request slugify s name = Inr g
             \<and> check_permissions s user (AddUser (Some n)) = None \<longrightarrow>
             GroupUserViewSet_dispatch slugify check_permissions s user name (AddUser (Some n))
               = Response 404 s)"
      by (simp add: GroupUserViewSet_dispatch_def)
  qed
  from 1 2 3 4 show ?thesis by blast
qed

lemma db0_crew:
  "initialize_request slugify_names db0 ''delivery-crew''
     = Inr \<lparr>group_id = 2, group_name = ''Delivery Crew''\<rparr>"
  by (simp add: initialize_request_def slugify_names_def db0_def)

theorem group_and_user_lookups_404_witness:
  "initialize_request slugify_names db0 ''delivery-crew''
     = Inr \<lparr>group_id = 2, group_name = ''Delivery Crew''\<rparr>
   \<and> list_all (\<lambda>g. slugify_names (group_name g) \<noteq> ''chefs'') (groups db0)
   \<and> GroupUserViewSet_dispatch slugify_names (\<lambda>s u r. None) db0 1 ''chefs'' ListUsers = Response 404 db0
   \<and> list_all (\<lambda>u. username u \<noteq> ''zed'') (users db0)
   \<and> GroupUserViewSet_dispatch slugify_names (\<lambda>s u r. None) db0 1 ''delivery-crew''
        (AddUser (Some ''zed'')) = Response 404 db0
   \<and> GroupUserViewSet_dispatch slugify_names (\<lambda>s u r. None) db0 1 ''delivery-crew''
        (AddUser (Some ''ann'')) = Response 201 (db0\<lparr>user_groups := [(2, 2), (1, 2)]\<rparr>)"
proof -
  have g: "\<forall>g \<in> set (groups db0). slugify_names (group_name g) \<noteq> ''chefs''"
    by (simp add: slugify_names_def db0_def)
  have u: "\<forall>u \<in> set (users db0). username u \<noteq> ''zed''"
    by (simp add: db0_def)
  from group_and_user_lookups_404
         [of slugify_names db0 "''chefs''" _ "\<lambda>s u r. None" 1 ListUsers "''zed''"] g
  have 1: "GroupUserViewSet_dispatch slugify_names (\<lambda>s u r. None) db0 1 ''chefs'' ListUsers = Response 404 db0"
    by simp
  from group_and_user_lookups_404
         [of slugify_names db0 "''delivery-crew''" "\<lparr>group_id = 2, group_name = ''Delivery Crew''\<rparr>"
             "\<lambda>s u r. None" 1 ListUsers "''zed''"] u db0_crew
  have 2: "GroupUserViewSet_dispatch slugify_names (\<lambda>s u r. None) db0 1 ''delivery-crew''
        (AddUser (Some ''zed'')) = Response 404 db0"
    by simp
  have 3: "GroupUserViewSet_dispatch slugify_names (\<lambda>s u r. None) db0 1 ''delivery-crew''
        (AddUser (Some ''ann'')) = Response 201 (db0\<lparr>user_groups := [(2, 2), (1, 2)]\<rparr>)"
    by (simp add: GroupUserViewSet_dispatch_def db0_crew GroupUserViewSet_create_def) (simp add: db0_def)
  from 1 2 3 g u db0_crew show ?thesis by (simp add: list_all_iff)
qed

subsection \<open>One cart per user\<close>

text \<open>
  The one-to-one constraint of \<open>Cart.user\<close> survives the two operations that write
  carts: the creation of a cart item and the deletion of a cart.
\<close>

lemma CartItemViewSet_create_one_cart_per_user:
  assumes "CartItemViewSet_create s user d = Response 201 s'"
      and "distinct (map cart_user (carts s))"
  shows "distinct (map cart_user (carts s'))"
proof -
  from assms(1) obtain a i where
    v: "CartItemSerializer_is_valid s None False user d = Inr a" and
    cr: "CartItemSerializer_create s a = Inr (i, s')"
    by (auto simp: CartItemViewSet_create_def split: sum.splits exn.splits)
  from CartItemSerializer_is_valid_attrs(1) [OF v] have u: "ca_user a = Some user" by simp
  from CartItemSerializer_create_result [OF cr u] obtain c where
    c: "cart_user c = user"
       "case user_cart s user of
          Some c0 \<Rightarrow> c = c0 \<and> carts s' = carts s
        | None \<Rightarrow> carts s' = carts s @ [c] \<and> cart_id c \<notin> set (map cart_id (carts s))"
    by blast
  show ?thesis
  proof (cases "user_cart s user")
    case None
    with c(2) have "carts s' = carts s @ [c]" by simp
    moreover from None have "user \<notin> set (map cart_user (carts s))"
      by (auto simp: user_cart_None)
    ultimately show ?thesis using assms(2) c(1) by simp
  next
    case (Some c0)
    with c(2) assms(2) show ?thesis by simp
  qed
qed

lemma Cart_delete_one_cart_per_user:
  "distinct (map cart_user (carts s)) \<Longrightarrow> distinct (map cart_user (carts (Cart_delete s c)))"
  by (simp add: Cart_delete_def distinct_map_filter)

text \<open>Under the two invariants the cart items of a user are those of the user's cart.\<close>

lemma user_cart_items_in_user_cart:
  assumes "distinct (map cart_user (carts s))" and "cart_items_owned s"
      and "user_cart s u = Some c"
  shows "user_cart_items s u = cart_cart_items s (cart_id c)"
proof -
  from assms(3) have c: "c \<in> set (carts s)" "cart_user c = u"
    by (simp_all add: user_cart_Some)
  from assms(1) have inj_u: "inj_on cart_user (set (carts s))"
    by (simp add: distinct_map)
  from assms(2) have inj_k: "inj_on cart_id (set (carts s))"
    by (simp add: cart_items_owned_def distinct_map)
  have "\<forall>i \<in> set (cart_items s). (ci_user i = u) = (ci_cart i = cart_id c)"
  proof
    fix i assume "i \<in> set (cart_items s)"
    with assms(2) obtain x where
      x: "x \<in> set (carts s)" "cart_id x = ci_cart i" "cart_user x = ci_user i"
      by (auto simp: cart_items_owned_def)
    show "(ci_user i = u) = (ci_cart i = cart_id c)"
    proof
      assume "ci_user i = u"
      with x c inj_u have "x = c" by (auto dest: inj_onD)
      with x(2) show "ci_cart i = cart_id c" by simp
    next
      assume "ci_cart i = cart_id c"
      with x c inj_k have "x = c" by (auto dest: inj_onD)
      with x(3) c(2) show "ci_user i = u" by simp
    qed
  qed
  then show ?thesis
    unfolding user_cart_items_def cart_cart_items_def by (auto intro: filter_cong)
qed

end
